theory Spec2Isabelle
  imports Complex_Main "HOL-Library.Log_Nat" "HOL-Library.Multiset"
begin

section \<open>JavaScript values used by the complaint engine\<close>

subsection \<open>Numbers\<close>

text \<open>
  A JavaScript \<^verbatim>\<open>number\<close> is an IEEE-754 double. A finite double is kept as the
  rational it denotes (\<open>-0\<close> and \<open>+0\<close> are one value here); every arithmetic result is
  rounded to the nearest double, ties to even, with overflow to the infinities.
\<close>

datatype number = Fin rat | PosInf | NegInf | NaN

definition pow2 :: "int \<Rightarrow> rat" where
  "pow2 e = (if 0 \<le> e then 2 ^ nat e else 1 / 2 ^ nat (- e))"

text \<open>\<open>ilog2 a\<close> is \<open>\<lfloor>log\<^sub>2 a\<rfloor>\<close> for a positive rational, from the bit lengths of
  its numerator and denominator.\<close>

definition ilog2 :: "rat \<Rightarrow> int" where
  "ilog2 a = (let (p, q) = quotient_of a; e0 = bitlen p - bitlen q
              in if pow2 e0 \<le> a then e0 else e0 - 1)"

definition round_half_even :: "rat \<Rightarrow> int" where
  "round_half_even q =
     (let f = \<lfloor>q\<rfloor>; r = q - of_int f
      in if r < 1 / 2 then f else if 1 / 2 < r then f + 1 else if even f then f else f + 1)"

text \<open>Round to 53 significant bits; below \<open>2\<^sup>-\<^sup>1\<^sup>0\<^sup>2\<^sup>2\<close> the spacing stays \<open>2\<^sup>-\<^sup>1\<^sup>0\<^sup>7\<^sup>4\<close>
  (subnormals); a rounded magnitude of \<open>2\<^sup>1\<^sup>0\<^sup>2\<^sup>4\<close> or more (binary exponent 1024) is an infinity.\<close>

definition round_double :: "rat \<Rightarrow> number" where
  "round_double x =
     (if x = 0 then Fin 0
      else let a = \<bar>x\<bar>; e = max (ilog2 a) (- 1022); u = pow2 (e - 52);
               r = of_int (round_half_even (a / u)) * u
           in if 1024 \<le> ilog2 r then (if 0 < x then PosInf else NegInf)
              else Fin (if 0 < x then r else - r))"

text \<open>A decimal literal of the source, such as \<^verbatim>\<open>0.2\<close>, denotes the nearest double.\<close>

definition js_literal :: "rat \<Rightarrow> number" where
  "js_literal x = round_double x"

text \<open>The operator \<^verbatim>\<open>+\<close> on two numbers.\<close>

fun js_add :: "number \<Rightarrow> number \<Rightarrow> number" where
  "js_add NaN _ = NaN"
| "js_add _ NaN = NaN"
| "js_add PosInf NegInf = NaN"
| "js_add NegInf PosInf = NaN"
| "js_add PosInf _ = PosInf"
| "js_add _ PosInf = PosInf"
| "js_add NegInf _ = NegInf"
| "js_add _ NegInf = NegInf"
| "js_add (Fin a) (Fin b) = round_double (a + b)"

text \<open>The comparison \<^verbatim>\<open><=\<close>: false as soon as one side is \<^verbatim>\<open>NaN\<close>.\<close>

fun num_le :: "number \<Rightarrow> number \<Rightarrow> bool" where
  "num_le NaN _ = False"
| "num_le _ NaN = False"
| "num_le NegInf _ = True"
| "num_le _ PosInf = True"
| "num_le PosInf _ = False"
| "num_le _ NegInf = False"
| "num_le (Fin a) (Fin b) = (a \<le> b)"

text \<open>\<^verbatim>\<open>Math.min(a, b)\<close>: \<^verbatim>\<open>NaN\<close> if either argument is, else the smaller one.\<close>

definition math_min :: "number \<Rightarrow> number \<Rightarrow> number" where
  "math_min a b = (if a = NaN \<or> b = NaN then NaN else if num_le a b then a else b)"

text \<open>Truthiness of a number: \<open>0\<close> and \<^verbatim>\<open>NaN\<close> are falsy.\<close>

definition num_truthy :: "number \<Rightarrow> bool" where
  "num_truthy n = (n \<noteq> NaN \<and> n \<noteq> Fin 0)"

subsection \<open>Strings, errors and plain objects\<close>

text \<open>
  A string is the list of its code units; the model covers the Latin-1 range, where case
  conversion changes the ASCII letters only. A thrown \<^verbatim>\<open>Error\<close> is a value carrying its
  message. A plain object (\<^verbatim>\<open>Record<string, any>\<close>) is an association list with one
  entry per key.
\<close>

datatype js_error = Error string

definition error_message :: "js_error \<Rightarrow> string" where
  "error_message e = (case e of Error m \<Rightarrow> m)"

type_synonym fields = "(string \<times> string) list"

text \<open>What \<^verbatim>\<open>JSON.parse\<close> yields: an object, an array, \<^verbatim>\<open>null\<close> or a scalar.\<close>

datatype json = JObject fields | JArray "string list" | JNull | JScalar string

text \<open>An object is kept as the list of its fields in the order of their insertion. (JavaScript
  lists integer-like keys first; no property below speaks of the order of fields.)\<close>

definition set_field :: "fields \<Rightarrow> string \<Rightarrow> string \<Rightarrow> fields" where
  "set_field obj k v = (if k \<in> fst ` set obj then map (\<lambda>(k', v'). if k' = k then (k', v) else (k', v')) obj
                         else obj @ [(k, v)])"

text \<open>Object spread \<^verbatim>\<open>{...a, ...b}\<close>: the keys of \<open>b\<close> win.\<close>

definition spread :: "fields \<Rightarrow> fields \<Rightarrow> fields" where
  "spread a b = foldl (\<lambda>obj (k, v). set_field obj k v) a b"

text \<open>White space and line terminators (\<^verbatim>\<open>\s\<close>, and what \<^verbatim>\<open>trim\<close> removes).\<close>

definition whitespace_chars :: string where
  "whitespace_chars = [CHR 0x09, CHR 0x0A, CHR 0x0B, CHR 0x0C, CHR 0x0D, CHR 0x20, CHR 0xA0]"

definition is_whitespace :: "char \<Rightarrow> bool" where
  "is_whitespace c = (c \<in> set whitespace_chars)"

text \<open>Truthiness of a possibly undefined string: undefined and the empty string are falsy.\<close>

definition truthy_string :: "string option \<Rightarrow> bool" where
  "truthy_string s = (case s of None \<Rightarrow> False | Some t \<Rightarrow> t \<noteq> [])"

definition js_trim :: "string \<Rightarrow> string" where
  "js_trim s = rev (dropWhile is_whitespace (rev (dropWhile is_whitespace s)))"

definition lower_letters :: string where
  "lower_letters = ''abcdefghijklmnopqrstuvwxyz''"

definition upper_letters :: string where
  "upper_letters = ''ABCDEFGHIJKLMNOPQRSTUVWXYZ''"

definition digit_chars :: string where
  "digit_chars = ''0123456789''"

definition toUpperChar :: "char \<Rightarrow> char" where
  "toUpperChar c = (case map_of (zip lower_letters upper_letters) c of Some u \<Rightarrow> u | None \<Rightarrow> c)"

definition toLowerChar :: "char \<Rightarrow> char" where
  "toLowerChar c = (case map_of (zip upper_letters lower_letters) c of Some l \<Rightarrow> l | None \<Rightarrow> c)"

definition toUpperCase :: "string \<Rightarrow> string" where
  "toUpperCase s = map toUpperChar s"

definition toLowerCase :: "string \<Rightarrow> string" where
  "toLowerCase s = map toLowerChar s"

fun tails :: "'a list \<Rightarrow> 'a list list" where
  "tails [] = [[]]"
| "tails (x # xs) = (x # xs) # tails xs"

definition starts_with :: "string \<Rightarrow> string \<Rightarrow> bool" where
  "starts_with s p = (take (length p) s = p)"

fun show_nat :: "nat \<Rightarrow> string" where
  "show_nat n = (if n < 10 then [digit_chars ! n] else show_nat (n div 10) @ [digit_chars ! (n mod 10)])"

declare show_nat.simps [simp del]

definition split_on :: "char \<Rightarrow> string \<Rightarrow> string list" where
  "split_on sep s = foldr (\<lambda>c acc. if c = sep then [] # acc else (c # hd acc) # tl acc) s [[]]"

fun js_join :: "string \<Rightarrow> string list \<Rightarrow> string" where
  "js_join sep [] = []"
| "js_join sep [x] = x"
| "js_join sep (x # y # ys) = x @ sep @ js_join sep (y # ys)"

text \<open>\<^verbatim>\<open>findIndex\<close>: the first position that satisfies the test; \<open>None\<close> is \<open>-1\<close>.\<close>

fun findIndex :: "('a \<Rightarrow> bool) \<Rightarrow> 'a list \<Rightarrow> nat option" where
  "findIndex P [] = None"
| "findIndex P (x # xs) = (if P x then Some 0 else map_option Suc (findIndex P xs))"

definition js_includes :: "string \<Rightarrow> string \<Rightarrow> bool" where
  "js_includes s sub = list_ex (\<lambda>t. starts_with t sub) (tails s)"

subsection \<open>Regular expressions\<close>

text \<open>
  The fragment of the regular expressions of the source that its patterns use: literals,
  greedy repetition \<open>{n,}\<close> of a character class, sequence, alternation, the greedy option
  \<open>?\<close> and one capturing group. Matching is the backtracking search of the language:
  \<open>re_match\<close> lists the ways a pattern matches at the start of the input, in the order the
  search tries them, each as the input left over and the text captured. Under the flag
  \<^verbatim>\<open>i\<close> both sides are compared after \<open>toUpperCase\<close>, in character classes too.
\<close>

datatype char_class = OneOf "char list" | AnyChar

datatype regex =
    Lit string
  | Rep char_class nat
  | Seq regex regex
  | Alt regex regex
  | Opt regex
  | Capture regex

definition canonicalize :: "bool \<Rightarrow> char \<Rightarrow> char" where
  "canonicalize ignoreCase c = (if ignoreCase then toUpperChar c else c)"

fun in_class :: "bool \<Rightarrow> char_class \<Rightarrow> char \<Rightarrow> bool" where
  "in_class ignoreCase AnyChar c = True"
| "in_class ignoreCase (OneOf cs) c =
     (canonicalize ignoreCase c \<in> set (map (canonicalize ignoreCase) cs))"

text \<open>The input still to read, and what group 1 has captured.\<close>

type_synonym match_state = "string \<times> string option"

fun re_match :: "bool \<Rightarrow> regex \<Rightarrow> match_state \<Rightarrow> match_state list" where
  "re_match i (Lit w) (s, cap) =
     (if length w \<le> length s \<and> map (canonicalize i) (take (length w) s) = map (canonicalize i) w
      then [(drop (length w) s, cap)] else [])"
| "re_match i (Rep cls n) (s, cap) =
     map (\<lambda>k. (drop k s, cap)) (rev [n ..< Suc (length (takeWhile (in_class i cls) s))])"
| "re_match i (Seq a b) st = concat (map (re_match i b) (re_match i a st))"
| "re_match i (Alt a b) st = re_match i a st @ re_match i b st"
| "re_match i (Opt a) st = re_match i a st @ [st]"
| "re_match i (Capture a) (s, cap) =
     map (\<lambda>(rest, c). (rest, Some (take (length s - length rest) s))) (re_match i a (s, cap))"

text \<open>The first match, searched from the leftmost start position (a pattern without the
  flag \<^verbatim>\<open>g\<close>): the text matched and the capture.\<close>

fun re_exec :: "bool \<Rightarrow> regex \<Rightarrow> string \<Rightarrow> (string \<times> string option) option" where
  "re_exec i r [] =
     (case re_match i r ([], None) of [] \<Rightarrow> None | (rest, cap) # other \<Rightarrow> Some ([], cap))"
| "re_exec i r (c # cs) =
     (case re_match i r (c # cs, None) of
        [] \<Rightarrow> re_exec i r cs
      | (rest, cap) # other \<Rightarrow> Some (take (length (c # cs) - length rest) (c # cs), cap))"

text \<open>All matches from left to right, none overlapping (flag \<^verbatim>\<open>g\<close>); after an empty
  match the search moves on by one character.\<close>

fun re_scan :: "bool \<Rightarrow> regex \<Rightarrow> nat \<Rightarrow> string \<Rightarrow> string list" where
  "re_scan i r skip [] =
     (if skip = 0 \<and> re_match i r ([], None) \<noteq> [] then [[]] else [])"
| "re_scan i r skip (c # cs) =
     (if skip > 0 then re_scan i r (skip - 1) cs
      else case re_match i r (c # cs, None) of
             [] \<Rightarrow> re_scan i r 0 cs
           | (rest, cap) # other \<Rightarrow>
               take (length (c # cs) - length rest) (c # cs)
                 # re_scan i r (length (c # cs) - length rest - 1) cs)"

record RegExp =
  source :: regex
  ignoreCase :: bool
  global :: bool

text \<open>\<^verbatim>\<open>String.prototype.match\<close>: \<open>None\<close> is \<^verbatim>\<open>null\<close>; without \<^verbatim>\<open>g\<close> the array holds the
  match and group 1, with \<^verbatim>\<open>g\<close> it holds every match.\<close>

definition str_match :: "string \<Rightarrow> RegExp \<Rightarrow> string option list option" where
  "str_match s pattern =
     (if global pattern then
        (case re_scan (ignoreCase pattern) (source pattern) 0 s of
           [] \<Rightarrow> None | ms \<Rightarrow> Some (map Some ms))
      else
        (case re_exec (ignoreCase pattern) (source pattern) s of
           None \<Rightarrow> None | Some (whole, cap) \<Rightarrow> Some [Some whole, cap]))"

section \<open>Complaints: the data model\<close>

record UserDetails =
  name :: "string option"
  email :: "string option"
  phone :: "string option"

record ConversationTurn =
  turn_id :: string
  question :: string
  answer :: string
  timestamp :: nat
  extractedInfo :: fields
  confidenceDelta :: number

text \<open>
  The context that is enriched turn by turn. Of \<^verbatim>\<open>contactDetails\<close> only
  \<^verbatim>\<open>phoneNumbers\<close> is kept; \<open>None\<close> is an absent field.
\<close>

record EnhancedComplaintContext =
  originalComplaint :: string
  customerDetails :: "UserDetails option"
  contactPhoneNumbers :: "string list option"
  conversationHistory :: "ConversationTurn list"
  finalConfidence :: number
  extractedFields :: fields
  complaintType :: "string option"
  userDetails :: "UserDetails option"

text \<open>The seed context built at intake.\<close>

record ComplaintContext =
  rawText :: string
  confidence :: number
  seed_complaintType :: "string option"
  extractedFeatures :: "fields option"

datatype call_status = Pending | Failed | Resolved | Escalated | Call_failed

text \<open>
  A document of the \<^verbatim>\<open>complaints\<close> collection; \<open>None\<close> is an absent field. Server
  timestamps (\<^verbatim>\<open>updatedAt\<close> and the like) are not kept.
\<close>

record ComplaintDoc =
  doc_userId :: "string option"
  doc_rawText :: "string option"
  doc_conversationHistory :: "ConversationTurn list option"
  doc_extractedFields :: "fields option"
  doc_finalConfidence :: "number option"
  doc_complaintType :: "string option"
  doc_userDetails :: "UserDetails option"
  doc_questionFlowCompleted :: "bool option"
  doc_questionsAsked :: "nat option"
  doc_questionsAnswered :: "nat option"
  doc_retryCount :: "nat option"
  doc_status :: "call_status option"
  doc_resolution :: "string option"
  doc_nextSteps :: "string list option"
  doc_lastCallId :: "string option"

text \<open>
  The store. Any request may fail: request number \<open>n\<close> (counted by \<open>opCount\<close>) throws when
  \<open>failing n\<close>. An update of a missing document throws as well.
\<close>

record Firestore =
  complaints :: "string \<rightharpoonup> ComplaintDoc"
  users :: "string \<rightharpoonup> UserDetails"
  opCount :: nat
  failing :: "nat \<Rightarrow> bool"

definition fs_get :: "Firestore \<Rightarrow> string \<Rightarrow> (js_error + ComplaintDoc option) \<times> Firestore" where
  "fs_get db complaintId =
     (if failing db (opCount db) then Inl (Error ''Firestore request failed'')
      else Inr (complaints db complaintId),
      db\<lparr>opCount := Suc (opCount db)\<rparr>)"

definition fs_get_user :: "Firestore \<Rightarrow> string \<Rightarrow> (js_error + UserDetails option) \<times> Firestore" where
  "fs_get_user db userId =
     (if failing db (opCount db) then Inl (Error ''Firestore request failed'')
      else Inr (users db userId),
      db\<lparr>opCount := Suc (opCount db)\<rparr>)"

definition fs_update ::
  "Firestore \<Rightarrow> string \<Rightarrow> (ComplaintDoc \<Rightarrow> ComplaintDoc) \<Rightarrow> (js_error + unit) \<times> Firestore" where
  "fs_update db complaintId change =
     (if failing db (opCount db) then
        (Inl (Error ''Firestore request failed''), db\<lparr>opCount := Suc (opCount db)\<rparr>)
      else case complaints db complaintId of
        None \<Rightarrow> (Inl (Error ''No document to update''), db\<lparr>opCount := Suc (opCount db)\<rparr>)
      | Some d \<Rightarrow>
          (Inr (), db\<lparr>complaints := (complaints db)(complaintId \<mapsto> change d),
                       opCount := Suc (opCount db)\<rparr>))"

section \<open>The follow-up dialogue\<close>

subsection \<open>Collaborators\<close>

text \<open>
  The chat completion service is an oracle: given the assistant role (system message and
  settings) and a prompt, it throws or returns the message content, which may be null. A
  prompt is kept as the values that the source interpolates into its fixed template.
\<close>

datatype assistant = FollowupAssistant | ExtractionAssistant

datatype prompt =
    ExtractFromTextPrompt string
  | ShouldContinuePrompt string string fields
  | GenerateQuestionPrompt string string fields bool
  | ExtractFromAnswerPrompt string string string fields

type_synonym chat_api = "assistant \<Rightarrow> prompt \<Rightarrow> js_error + string option"

text \<open>
  What a dialogue operation takes from its environment: the chat service,
  \<^verbatim>\<open>JSON.parse\<close> (\<open>None\<close> is a syntax error), the identifier that \<^verbatim>\<open>uuidv4()\<close> yields and the
  clock.
\<close>

record Collaborators =
  chat :: chat_api
  json_parse :: "string \<Rightarrow> json option"
  uuidv4 :: string
  now :: nat

record QuestionFlowConfig =
  maxQuestions :: nat

definition followupQuestionsConfig :: QuestionFlowConfig where
  "followupQuestionsConfig = \<lparr>maxQuestions = 4\<rparr>"

subsection \<open>OpenAIClient\<close>

definition generateFollowupQuestions :: "chat_api \<Rightarrow> prompt \<Rightarrow> js_error + string" where
  "generateFollowupQuestions api p =
     (case api FollowupAssistant p of
        Inl e \<Rightarrow> Inl (Error ''Failed to generate follow-up questions'')
      | Inr content \<Rightarrow>
          Inr (if truthy_string content then the content
               else ''I apologize, but I need more information to help you better. Could you please provide more details about your complaint?''))"

definition extractInformation :: "chat_api \<Rightarrow> prompt \<Rightarrow> string" where
  "extractInformation api p =
     (case api ExtractionAssistant p of
        Inl e \<Rightarrow> ''{}''
      | Inr content \<Rightarrow> (if truthy_string content then the content else ''{}''))"

subsection \<open>ConfidenceEvaluator\<close>

text \<open>The loop of \<open>calculateOverallConfidence\<close>: \<^verbatim>\<open>confidence += turn.confidenceDelta\<close>.\<close>

fun add_deltas :: "number \<Rightarrow> ConversationTurn list \<Rightarrow> number" where
  "add_deltas acc [] = acc"
| "add_deltas acc (turn # turns) = add_deltas (js_add acc (confidenceDelta turn)) turns"

definition calculateOverallConfidence :: "number \<Rightarrow> ConversationTurn list \<Rightarrow> number" where
  "calculateOverallConfidence initialConfidence history =
     math_min (js_literal 1) (add_deltas initialConfidence history)"

subsection \<open>FollowupHandler\<close>

text \<open>The match of \<^verbatim>\<open>/\{[\s\S]*?\}/\<close>: from the first opening brace to the first closing
  brace after it.\<close>

definition match_braces :: "string \<Rightarrow> string option" where
  "match_braces s =
     (case dropWhile (\<lambda>c. c \<noteq> CHR ''{'') s of
        [] \<Rightarrow> None
      | b # rest \<Rightarrow>
          if CHR ''}'' \<in> set rest then Some (b # takeWhile (\<lambda>c. c \<noteq> CHR ''}'') rest @ ''}'')
          else None)"

text \<open>Parsing a text that starts with a brace: an object, or a syntax error.\<close>

definition parse_braced :: "Collaborators \<Rightarrow> string \<Rightarrow> fields option" where
  "parse_braced env s = (case json_parse env s of Some (JObject obj) \<Rightarrow> Some obj | _ \<Rightarrow> None)"

definition spread_json :: "fields \<Rightarrow> json \<Rightarrow> fields" where
  "spread_json a j =
     (case j of
        JObject obj \<Rightarrow> spread a obj
      | JArray xs \<Rightarrow> spread a (zip (map show_nat [0 ..< length xs]) xs)
      | JNull \<Rightarrow> a
      | JScalar x \<Rightarrow> a)"

definition extractInformationFromText :: "Collaborators \<Rightarrow> string \<Rightarrow> json" where
  "extractInformationFromText env complaintText =
     (let response = extractInformation (chat env) (ExtractFromTextPrompt complaintText) in
      case match_braces response of
        Some jsonStr \<Rightarrow>
          (case parse_braced env jsonStr of Some obj \<Rightarrow> JObject obj | None \<Rightarrow> JObject [])
      | None \<Rightarrow>
          (case json_parse env response of
             None \<Rightarrow> JObject []
           | Some (JScalar x) \<Rightarrow> JObject []
           | Some parsed \<Rightarrow> parsed))"

definition preAnalyzeComplaint :: "Collaborators \<Rightarrow> EnhancedComplaintContext \<Rightarrow> EnhancedComplaintContext" where
  "preAnalyzeComplaint env context =
     (let extractedInfo = extractInformationFromText env (originalComplaint context) in
      context\<lparr>extractedFields := spread_json (extractedFields context) extractedInfo\<rparr>)"

text \<open>A turn is pending when \<^verbatim>\<open>!turn.answer || turn.answer.trim() === ''\<close>, and answered
  otherwise.\<close>

definition is_pending :: "ConversationTurn \<Rightarrow> bool" where
  "is_pending turn = (answer turn = [] \<or> js_trim (answer turn) = [])"

definition is_answered :: "ConversationTurn \<Rightarrow> bool" where
  "is_answered turn = (answer turn \<noteq> [] \<and> js_trim (answer turn) \<noteq> [])"

definition summary_part :: "nat \<times> ConversationTurn \<Rightarrow> string" where
  "summary_part p =
     (case p of (index, turn) \<Rightarrow>
        ''Q'' @ show_nat (index + 1) @ '': '' @ question turn @ [CHR 0x0A]
        @ (if answer turn \<noteq> [] \<and> js_trim (answer turn) \<noteq> []
           then ''A'' @ show_nat (index + 1) @ '': '' @ answer turn
           else ''A'' @ show_nat (index + 1) @ '': [No answer yet]''))"

definition buildConversationSummary :: "EnhancedComplaintContext \<Rightarrow> string" where
  "buildConversationSummary context =
     (if length (conversationHistory context) = 0 then ''No previous questions asked.''
      else js_join [CHR 0x0A, CHR 0x0A]
             (map summary_part (zip [0 ..< length (conversationHistory context)]
                                    (conversationHistory context))))"

text \<open>Building the prompt cannot throw here, so the result is always \<open>Inr\<close>; the sum type
  keeps the \<^verbatim>\<open>catch\<close> of the caller in the model.\<close>

definition llmShouldContinueAsking :: "Collaborators \<Rightarrow> EnhancedComplaintContext \<Rightarrow> js_error + bool" where
  "llmShouldContinueAsking env context =
     (let conversationSummary = buildConversationSummary context in
      case generateFollowupQuestions (chat env)
             (ShouldContinuePrompt (originalComplaint context) conversationSummary
                (extractedFields context)) of
        Inl e \<Rightarrow> Inr False
      | Inr response \<Rightarrow> Inr (toUpperCase (js_trim response) = ''CONTINUE''))"

definition shouldAskMoreQuestions ::
  "QuestionFlowConfig \<Rightarrow> Collaborators \<Rightarrow> EnhancedComplaintContext \<Rightarrow> bool" where
  "shouldAskMoreQuestions config env context =
     (if length (conversationHistory context) \<ge> maxQuestions config then False
      else case llmShouldContinueAsking env context of
             Inr shouldContinue \<Rightarrow> shouldContinue
           | Inl e \<Rightarrow> length (filter is_answered (conversationHistory context)) < 2)"

text \<open>The prefix that \<^verbatim>\<open>/^(Question:|Q:|Answer:|\d+\.|\-|\*)\s*/i\<close> removes.\<close>

definition question_prefix :: regex where
  "question_prefix =
     Seq (Capture (Alt (Lit ''Question:'') (Alt (Lit ''Q:'') (Alt (Lit ''Answer:'')
            (Alt (Seq (Rep (OneOf digit_chars) 1) (Lit ''.'')) (Alt (Lit ''-'') (Lit ''*'')))))))
         (Rep (OneOf whitespace_chars) 0)"

definition strip_question_prefix :: "string \<Rightarrow> string" where
  "strip_question_prefix q =
     (case re_match True question_prefix (q, None) of [] \<Rightarrow> q | (rest, cap) # other \<Rightarrow> rest)"

definition vaguePhrases :: "string list" where
  "vaguePhrases = [''more details'', ''clarify'', ''can you tell me'', ''additional information'']"

definition llmGenerateIntelligentQuestion ::
  "Collaborators \<Rightarrow> EnhancedComplaintContext \<Rightarrow> bool \<Rightarrow> js_error + string" where
  "llmGenerateIntelligentQuestion env context isLastQuestion =
     (let conversationSummary = buildConversationSummary context in
      case generateFollowupQuestions (chat env)
             (GenerateQuestionPrompt (originalComplaint context) conversationSummary
                (extractedFields context) isLastQuestion) of
        Inl e \<Rightarrow> Inl e
      | Inr response \<Rightarrow>
          let lines = filter (\<lambda>line. js_trim line \<noteq> []) (split_on (CHR 0x0A) response);
              found = (case filter (\<lambda>line. js_includes line ''?'') lines of
                         l # ls \<Rightarrow> l
                       | [] \<Rightarrow> (case lines of l # ls \<Rightarrow> l | [] \<Rightarrow> response));
              generated = js_trim (strip_question_prefix found)
          in if length generated < 10 \<or> length generated > 150 then
               Inl (Error ''Generated question is too short or too long'')
             else if list_ex (\<lambda>phrase. js_includes (toLowerCase generated) phrase) vaguePhrases
                     \<and> \<not> isLastQuestion then
               Inl (Error ''Generated question is too vague'')
             else Inr generated)"

definition getFallbackQuestion :: "EnhancedComplaintContext \<Rightarrow> bool \<Rightarrow> string" where
  "getFallbackQuestion context isLastQuestion =
     (let conversationLength = length (conversationHistory context) in
      if conversationLength = 0 then
        ''To help resolve your issue quickly, could you tell me when this problem first occurred?''
      else if conversationLength = 1 then
        ''What specific outcome or resolution are you hoping for with this issue?''
      else if isLastQuestion then
        ''Is there any other important information you think would help us resolve this issue?''
      else
        ''Could you provide any reference numbers, account details, or other specific information related to this problem?'')"

text \<open>\<open>questionsRemaining\<close> is a difference that may be negative: an integer.\<close>

definition generateFollowupQuestion ::
  "QuestionFlowConfig \<Rightarrow> Collaborators \<Rightarrow> EnhancedComplaintContext \<Rightarrow> string" where
  "generateFollowupQuestion config env context =
     (let questionsRemaining = int (maxQuestions config) - int (length (conversationHistory context));
          isLastQuestion = (questionsRemaining = 1)
      in if questionsRemaining \<le> 0 then []
         else case llmGenerateIntelligentQuestion env context isLastQuestion of
                Inr generated \<Rightarrow> generated
              | Inl e \<Rightarrow> getFallbackQuestion context isLastQuestion)"

definition extractInformationFromAnswer ::
  "Collaborators \<Rightarrow> EnhancedComplaintContext \<Rightarrow> string \<Rightarrow> string \<Rightarrow> fields" where
  "extractInformationFromAnswer env context questionAsked userAnswer =
     (let response = extractInformation (chat env)
                       (ExtractFromAnswerPrompt (originalComplaint context) questionAsked userAnswer
                          (extractedFields context));
          jsonStr = (case match_braces response of Some m \<Rightarrow> m | None \<Rightarrow> ''{}'')
      in case parse_braced env jsonStr of Some obj \<Rightarrow> obj | None \<Rightarrow> [])"

subsection \<open>ConversationManager\<close>

text \<open>An undefined property of the user document is kept as the text \<^verbatim>\<open>undefined\<close>.\<close>

definition user_fields :: "UserDetails \<Rightarrow> fields" where
  "user_fields u =
     [(''name'', case name u of None \<Rightarrow> ''undefined'' | Some v \<Rightarrow> v),
      (''email'', case email u of None \<Rightarrow> ''undefined'' | Some v \<Rightarrow> v),
      (''phone'', case phone u of None \<Rightarrow> ''undefined'' | Some v \<Rightarrow> v)]"

text \<open>Loading the user of a complaint: a failed read is logged and leaves the details
  undefined.\<close>

definition load_user_details :: "Firestore \<Rightarrow> ComplaintDoc \<Rightarrow> UserDetails option \<times> Firestore" where
  "load_user_details db existingData =
     (if truthy_string (doc_userId existingData) then
        (case fs_get_user db (the (doc_userId existingData)) of
           (Inl e, db') \<Rightarrow> (None, db')
         | (Inr u, db') \<Rightarrow> (u, db'))
      else (None, db))"

definition stored_history :: "ComplaintDoc \<Rightarrow> ConversationTurn list" where
  "stored_history d = (case doc_conversationHistory d of None \<Rightarrow> [] | Some h \<Rightarrow> h)"

definition stored_fields :: "ComplaintDoc \<Rightarrow> fields" where
  "stored_fields d = (case doc_extractedFields d of None \<Rightarrow> [] | Some f \<Rightarrow> f)"

text \<open>\<^verbatim>\<open>complaintData.finalConfidence || 0.5\<close>\<close>

definition stored_confidence :: "ComplaintDoc \<Rightarrow> number" where
  "stored_confidence d =
     (case doc_finalConfidence d of
        None \<Rightarrow> js_literal (5 / 10)
      | Some c \<Rightarrow> if num_truthy c then c else js_literal (5 / 10))"

text \<open>
  The context that \<open>askQuestions\<close> starts from: the seed merged with what is stored and
  with the user's contact details, pre-analysed when no turn exists yet.
\<close>

definition prepared_context ::
  "Collaborators \<Rightarrow> ComplaintContext \<Rightarrow> ComplaintDoc \<Rightarrow> UserDetails option
     \<Rightarrow> EnhancedComplaintContext" where
  "prepared_context env context existingData loadedUser =
     (let context0 =
            \<lparr>originalComplaint = rawText context,
             customerDetails = None,
             contactPhoneNumbers = None,
             conversationHistory = stored_history existingData,
             finalConfidence = confidence context,
             extractedFields =
               spread (spread (case extractedFeatures context of None \<Rightarrow> [] | Some f \<Rightarrow> f)
                              (stored_fields existingData))
                      (case loadedUser of None \<Rightarrow> [] | Some u \<Rightarrow> user_fields u),
             complaintType = seed_complaintType context,
             userDetails = loadedUser\<rparr>
      in if length (conversationHistory context0) = 0
         then preAnalyzeComplaint env context0 else context0)"

text \<open>
  The question-generation step of \<open>askQuestions\<close>, taken when no turn is pending: below
  the cap, and if the continuation decision says so, a generated non-blank question is
  appended as a new turn with an empty answer.
\<close>

definition generate_next_turn ::
  "QuestionFlowConfig \<Rightarrow> Collaborators \<Rightarrow> EnhancedComplaintContext \<Rightarrow> EnhancedComplaintContext" where
  "generate_next_turn config env context1 =
     (let answeredQuestions = filter is_answered (conversationHistory context1);
          questionCount = length answeredQuestions
      in if questionCount < maxQuestions config then
           (if shouldAskMoreQuestions config env context1 then
              let newQuestion = generateFollowupQuestion config env context1 in
              if newQuestion \<noteq> [] \<and> length (js_trim newQuestion) > 0 then
                context1\<lparr>conversationHistory := conversationHistory context1 @
                  [\<lparr>turn_id = uuidv4 env, question = newQuestion, answer = [],
                    timestamp = now env, extractedInfo = [],
                    confidenceDelta = js_literal 0\<rparr>]\<rparr>
              else context1
            else context1)
         else context1)"

text \<open>
  \<open>askQuestions\<close> returns the enhanced context or throws, and leaves the store as changed.
  Its \<^verbatim>\<open>companyInfo\<close> argument is never read and is left out.
\<close>

definition askQuestions ::
  "QuestionFlowConfig \<Rightarrow> Collaborators \<Rightarrow> Firestore \<Rightarrow> ComplaintContext \<Rightarrow> string
     \<Rightarrow> (js_error + EnhancedComplaintContext) \<times> Firestore" where
  "askQuestions config env db context complaintId =
     (case fs_get db complaintId of
        (Inl e, db1) \<Rightarrow> (Inl e, db1)
      | (Inr None, db1) \<Rightarrow>
          (Inl (Error (''Complaint document '' @ complaintId @ '' not found'')), db1)
      | (Inr (Some existingData), db1) \<Rightarrow>
          (case load_user_details db1 existingData of (loadedUser, db2) \<Rightarrow>
           let context1 = prepared_context env context existingData loadedUser;
               pendingQuestions = filter is_pending (conversationHistory context1)
           in if length pendingQuestions > 0 then
                (Inr (context1\<lparr>finalConfidence :=
                        calculateOverallConfidence (confidence context) (conversationHistory context1)\<rparr>),
                 db2)
              else
                let answeredQuestions = filter is_answered (conversationHistory context1);
                    context2 = generate_next_turn config env context1;
                    newConfidence = calculateOverallConfidence (confidence context)
                                      (filter is_answered (conversationHistory context2));
                    context3 = context2\<lparr>finalConfidence := newConfidence\<rparr>;
                    questionFlowCompleted = (\<not> list_ex is_pending (conversationHistory context3))
                in (case fs_update db2 complaintId
                          (\<lambda>d. d\<lparr>doc_conversationHistory := Some (conversationHistory context3),
                                  doc_extractedFields := Some (extractedFields context3),
                                  doc_finalConfidence := Some newConfidence,
                                  doc_questionFlowCompleted := Some questionFlowCompleted,
                                  doc_questionsAsked := Some (length (conversationHistory context3)),
                                  doc_questionsAnswered := Some (length answeredQuestions)\<rparr>) of
                     (Inl e, db3) \<Rightarrow> (Inl e, db3)
                   | (Inr u, db3) \<Rightarrow> (Inr context3, db3))))"

text \<open>The context that \<open>processAnswer\<close> hands to the information extraction for the turn at
  \<open>questionIndex\<close>: the stored complaint with the turns before that position only.\<close>

definition tempContext :: "ComplaintDoc \<Rightarrow> nat \<Rightarrow> EnhancedComplaintContext" where
  "tempContext complaintData questionIndex =
     \<lparr>originalComplaint = (case doc_rawText complaintData of None \<Rightarrow> [] | Some t \<Rightarrow> t),
      customerDetails = None,
      contactPhoneNumbers = None,
      conversationHistory = take questionIndex (stored_history complaintData),
      finalConfidence = stored_confidence complaintData,
      extractedFields = stored_fields complaintData,
      complaintType = (if truthy_string (doc_complaintType complaintData)
                       then doc_complaintType complaintData else Some ''GENERAL''),
      userDetails = doc_userDetails complaintData\<rparr>"

text \<open>
  The body of \<open>processAnswer\<close>, for whatever \<^verbatim>\<open>extractInformationFromAnswer\<close> method the
  manager's \<^verbatim>\<open>followupHandler\<close> has and whatever \<^verbatim>\<open>new Date()\<close> reads: the method is
  called once, with \<open>tempContext\<close>, the question of the turn and the answer.
\<close>

definition processAnswer_with ::
  "(EnhancedComplaintContext \<Rightarrow> string \<Rightarrow> string \<Rightarrow> fields) \<Rightarrow> nat
     \<Rightarrow> Firestore \<Rightarrow> string \<Rightarrow> string \<Rightarrow> string
     \<Rightarrow> (js_error + EnhancedComplaintContext) \<times> Firestore" where
  "processAnswer_with handlerExtract newDate db complaintId questionId userAnswer =
     (case fs_get db complaintId of
        (Inl e, db1) \<Rightarrow> (Inl e, db1)
      | (Inr None, db1) \<Rightarrow>
          (Inl (Error (''Complaint document '' @ complaintId @ '' not found'')), db1)
      | (Inr (Some complaintData), db1) \<Rightarrow>
          let history = stored_history complaintData in
          (case findIndex (\<lambda>turn. turn_id turn = questionId) history of
             None \<Rightarrow> (Inl (Error (''No question found matching questionId: '' @ questionId)), db1)
           | Some questionIndex \<Rightarrow>
               let questionToAnswer = question (history ! questionIndex);
                   info = handlerExtract
                            (tempContext complaintData questionIndex) questionToAnswer userAnswer;
                   history' = history[questionIndex := (history ! questionIndex)
                                \<lparr>answer := userAnswer, timestamp := newDate, extractedInfo := info,
                                 confidenceDelta := (if length info > 0 then js_literal (2 / 10)
                                                     else js_literal (1 / 10))\<rparr>];
                   updatedFields = spread (stored_fields complaintData) info;
                   newConfidence = calculateOverallConfidence (stored_confidence complaintData)
                                     (filter is_answered history');
                   enhancedContext =
                     (tempContext complaintData questionIndex)
                       \<lparr>conversationHistory := history', extractedFields := updatedFields,
                        finalConfidence := newConfidence\<rparr>;
                   hasUnansweredQuestions = list_ex is_pending history'
               in (case fs_update db1 complaintId
                         (\<lambda>d. d\<lparr>doc_conversationHistory := Some history',
                                 doc_extractedFields := Some updatedFields,
                                 doc_finalConfidence := Some newConfidence,
                                 doc_questionFlowCompleted := Some (\<not> hasUnansweredQuestions),
                                 doc_questionsAnswered := Some (length (filter is_answered history'))\<rparr>) of
                    (Inl e, db2) \<Rightarrow> (Inl e, db2)
                  | (Inr u, db2) \<Rightarrow> (Inr enhancedContext, db2))))"

text \<open>The constructor installs the repository's \<^verbatim>\<open>FollowupHandler\<close>.\<close>

definition processAnswer ::
  "Collaborators \<Rightarrow> Firestore \<Rightarrow> string \<Rightarrow> string \<Rightarrow> string
     \<Rightarrow> (js_error + EnhancedComplaintContext) \<times> Firestore" where
  "processAnswer env db complaintId questionId userAnswer =
     processAnswer_with (extractInformationFromAnswer env) (now env) db complaintId questionId
       userAnswer"

subsection \<open>Sequences of dialogue operations\<close>

text \<open>
  The two operations on one complaint, each with the environment it runs in; a failed
  operation leaves the store as it left it and the sequence goes on.
\<close>

datatype operation =
    AskQuestions Collaborators ComplaintContext
  | ProcessAnswer Collaborators string string

definition perform ::
  "QuestionFlowConfig \<Rightarrow> string \<Rightarrow> Firestore \<Rightarrow> operation
     \<Rightarrow> (js_error + EnhancedComplaintContext) \<times> Firestore" where
  "perform config complaintId db op =
     (case op of
        AskQuestions env context \<Rightarrow> askQuestions config env db context complaintId
      | ProcessAnswer env questionId userAnswer \<Rightarrow>
          processAnswer env db complaintId questionId userAnswer)"

definition run_operations ::
  "QuestionFlowConfig \<Rightarrow> string \<Rightarrow> Firestore \<Rightarrow> operation list \<Rightarrow> Firestore" where
  "run_operations config complaintId db ops =
     foldl (\<lambda>db' op. snd (perform config complaintId db' op)) db ops"

text \<open>Every answer submitted in the sequence has a character that is not white space.\<close>

definition nonblank_answers :: "operation list \<Rightarrow> bool" where
  "nonblank_answers ops =
     list_all (\<lambda>op. case op of AskQuestions env context \<Rightarrow> True
                     | ProcessAnswer env questionId userAnswer \<Rightarrow> js_trim userAnswer \<noteq> []) ops"

text \<open>The identifiers and answers of the turns, in order.\<close>

definition qa_pairs :: "ConversationTurn list \<Rightarrow> (string \<times> string) list" where
  "qa_pairs h = map (\<lambda>turn. (turn_id turn, answer turn)) h"

definition stored_answers :: "Firestore \<Rightarrow> string \<Rightarrow> (string \<times> string) list" where
  "stored_answers db complaintId =
     (case complaints db complaintId of None \<Rightarrow> [] | Some d \<Rightarrow> qa_pairs (stored_history d))"

definition pending_count :: "Firestore \<Rightarrow> string \<Rightarrow> nat" where
  "pending_count db complaintId =
     (case complaints db complaintId of
        None \<Rightarrow> 0
      | Some d \<Rightarrow> length (filter is_pending (stored_history d)))"

subsection \<open>Exact sums\<close>

text \<open>No addition of the confidence loop rounds: every partial sum is the exact sum of two
  finite numbers.\<close>

fun exact_additions :: "number \<Rightarrow> ConversationTurn list \<Rightarrow> bool" where
  "exact_additions acc [] = True"
| "exact_additions acc (turn # turns) =
     ((case (acc, confidenceDelta turn) of
         (Fin a, Fin b) \<Rightarrow> js_add acc (confidenceDelta turn) = Fin (a + b)
       | _ \<Rightarrow> False)
      \<and> exact_additions (js_add acc (confidenceDelta turn)) turns)"

definition delta_value :: "ConversationTurn \<Rightarrow> rat" where
  "delta_value turn = (case confidenceDelta turn of Fin b \<Rightarrow> b | _ \<Rightarrow> 0)"

section \<open>Call orchestration\<close>

subsection \<open>IVR navigation plans (TwilioController.generateIVRNavigationPlan)\<close>

datatype IVROption = IVROption (key: string) (option_description: string) (nextNode: "IVRNode option")
  and IVRNode = IVRNode (prompt: string) (options: "IVROption list")

datatype ivr_action = Wait | Press | Say

record IVRNavigationStep =
  action :: ivr_action
  step_value :: string
  delayMs :: nat
  description :: string

record IVRNavigationPlan =
  steps :: "IVRNavigationStep list"
  estimatedDuration :: nat

text \<open>\<open>None\<close> is an \<^verbatim>\<open>undefined\<close> structure.\<close>

definition generateIVRNavigationPlan :: "IVRNode list option \<Rightarrow> string \<Rightarrow> IVRNavigationPlan" where
  "generateIVRNavigationPlan ivrStructure targetDepartment =
     (if (case ivrStructure of None \<Rightarrow> False | Some nodes \<Rightarrow> length nodes > 0) then
        \<lparr>steps =
           [\<lparr>action = Wait, step_value = ''greeting'', delayMs = 5000,
              description = ''Wait for initial greeting''\<rparr>,
            \<lparr>action = Press, step_value = ''2'', delayMs = 1000,
              description = ''Press 2 for customer service''\<rparr>,
            \<lparr>action = Wait, step_value = ''menu'', delayMs = 3000,
              description = ''Wait for department menu''\<rparr>,
            \<lparr>action = Press, step_value = ''1'', delayMs = 1000,
              description = ''Press 1 for billing issues''\<rparr>],
         estimatedDuration = 10000\<rparr>
      else
        \<lparr>steps =
           [\<lparr>action = Wait, step_value = ''greeting'', delayMs = 5000,
              description = ''Wait for initial greeting''\<rparr>,
            \<lparr>action = Press, step_value = ''0'', delayMs = 1000,
              description = ''Press 0 to reach an operator''\<rparr>,
            \<lparr>action = Wait, step_value = ''operator'', delayMs = 10000,
              description = ''Wait for operator''\<rparr>],
         estimatedDuration = 16000\<rparr>)"

text \<open>The keys a plan presses, in order.\<close>

definition pressed_keys :: "IVRNavigationPlan \<Rightarrow> string list" where
  "pressed_keys plan = map step_value (filter (\<lambda>s. action s = Press) (steps plan))"

text \<open>A menu whose only node offers key 3 for technical support and key 4 for billing.\<close>

definition sample_ivrStructure :: "IVRNode list" where
  "sample_ivrStructure =
     [IVRNode ''Press 3 for technical support, 4 for billing''
        [IVROption ''3'' ''technical_support'' None, IVROption ''4'' ''billing'' None]]"

subsection \<open>Fallback to the customer (FallbackHandler, TwilioController)\<close>

record FallbackResult =
  userResponses :: fields
  callResumed :: bool
  resumeTimestamp :: number

text \<open>
  The telephony controller as \<open>handleFallback\<close> sees it: each method either throws or
  returns. The calls made are recorded, in order.
\<close>

record TwilioControllerI =
  placeCallOnHold :: "string \<Rightarrow> js_error + bool"
  callUserForFallback :: "string \<Rightarrow> string list \<Rightarrow> string \<Rightarrow> js_error + FallbackResult"
  resumeCall :: "string \<Rightarrow> js_error + bool"

datatype controller_call =
    PlaceCallOnHold string
  | CallUserForFallback string "string list" string
  | ResumeCall string

definition getUserPhoneNumber :: "EnhancedComplaintContext \<Rightarrow> string" where
  "getUserPhoneNumber context =
     (let phoneNumber = (case customerDetails context of None \<Rightarrow> None | Some d \<Rightarrow> phone d) in
      if truthy_string phoneNumber then the phoneNumber
      else let contactPhone = (case contactPhoneNumbers context of
                                 None \<Rightarrow> None | Some [] \<Rightarrow> None | Some (p # ps) \<Rightarrow> Some p) in
           if truthy_string contactPhone then the contactPhone
           else ''+15551234567'')"

definition wrap_fallback_error :: "js_error \<Rightarrow> js_error" where
  "wrap_fallback_error e = Error (''Fallback handling failed: '' @ error_message e)"

definition handleFallback ::
  "TwilioControllerI \<Rightarrow> string \<Rightarrow> EnhancedComplaintContext \<Rightarrow> string list \<Rightarrow> string
     \<Rightarrow> (js_error + FallbackResult) \<times> controller_call list" where
  "handleFallback twilioController callSid context missingInfo complaintId =
     (case placeCallOnHold twilioController callSid of
        Inl e \<Rightarrow> (Inl (wrap_fallback_error e), [PlaceCallOnHold callSid])
      | Inr holdSuccess \<Rightarrow>
          if \<not> holdSuccess then
            (Inl (wrap_fallback_error (Error ''Failed to place call on hold'')),
             [PlaceCallOnHold callSid])
          else
            let userPhoneNumber = getUserPhoneNumber context in
            if userPhoneNumber = [] then
              (Inl (wrap_fallback_error (Error ''User phone number not available for fallback'')),
               [PlaceCallOnHold callSid])
            else
              (case callUserForFallback twilioController userPhoneNumber missingInfo complaintId of
                 Inl e \<Rightarrow>
                   (Inl (wrap_fallback_error e),
                    [PlaceCallOnHold callSid,
                     CallUserForFallback userPhoneNumber missingInfo complaintId])
               | Inr fallbackResult \<Rightarrow>
                   (case resumeCall twilioController callSid of
                      Inl e \<Rightarrow>
                        (Inl (wrap_fallback_error e),
                         [PlaceCallOnHold callSid,
                          CallUserForFallback userPhoneNumber missingInfo complaintId,
                          ResumeCall callSid])
                    | Inr resumeSuccess \<Rightarrow>
                        if \<not> resumeSuccess then
                          (Inl (wrap_fallback_error (Error ''Failed to resume call after fallback'')),
                           [PlaceCallOnHold callSid,
                            CallUserForFallback userPhoneNumber missingInfo complaintId,
                            ResumeCall callSid])
                        else
                          (Inr fallbackResult,
                           [PlaceCallOnHold callSid,
                            CallUserForFallback userPhoneNumber missingInfo complaintId,
                            ResumeCall callSid]))))"

text \<open>
  The controller of the source: hold and resume always report success; the side call
  answers each missing field with a canned value and stores the episode, which fails when
  the store does (\<open>storeFails\<close>); \<open>nowSeconds\<close> is \<^verbatim>\<open>Date.now() / 1000\<close>.
\<close>

definition simulated_response :: "string \<Rightarrow> string" where
  "simulated_response info =
     (if js_includes info ''account'' then ''AC123456789''
      else if js_includes info ''date'' then ''2025-05-15''
      else if js_includes info ''amount'' then ''$249.99''
      else ''Information about '' @ info)"

definition twilioController :: "bool \<Rightarrow> number \<Rightarrow> TwilioControllerI" where
  "twilioController storeFails nowSeconds =
     \<lparr>placeCallOnHold = (\<lambda>callSid. Inr True),
      callUserForFallback = (\<lambda>userPhoneNumber missingInfo complaintId.
         let userResponses = foldl (\<lambda>obj info. set_field obj info (simulated_response info)) [] missingInfo in
         if storeFails then Inl (Error (''Failed to call user for fallback: '' @ ''store unavailable''))
         else Inr \<lparr>userResponses = userResponses, callResumed = True, resumeTimestamp = nowSeconds\<rparr>),
      resumeCall = (\<lambda>callSid. Inr True)\<rparr>"

subsection \<open>Placing the call (CallManager)\<close>

record CallResult =
  status :: call_status
  callId :: "string option"
  resolution :: string
  nextSteps :: "string list"

text \<open>
  The world of a call: the store and the list of numbers dialled so far (each
  \<^verbatim>\<open>calls.create\<close>, oldest first; \<open>None\<close> when \<^verbatim>\<open>phoneNumbers[0]\<close> is undefined). The
  telephony client is a function of the attempt number and the number dialled: it throws
  or returns the new call's sid.
\<close>

record CallWorld =
  firestore :: Firestore
  dialled :: "string option list"

type_synonym twilio_client = "nat \<Rightarrow> string option \<Rightarrow> js_error + string"

text \<open>\<^verbatim>\<open>contactDetails.phoneNumbers[0]\<close>\<close>

definition first_number :: "string list \<Rightarrow> string option" where
  "first_number phoneNumbers = (case phoneNumbers of [] \<Rightarrow> None | p # ps \<Rightarrow> Some p)"

definition retryCount_of :: "ComplaintDoc \<Rightarrow> nat" where
  "retryCount_of d = (case doc_retryCount d of None \<Rightarrow> 0 | Some n \<Rightarrow> n)"

definition updateComplaintStatus :: "Firestore \<Rightarrow> string \<Rightarrow> CallResult \<Rightarrow> Firestore" where
  "updateComplaintStatus db complaintId callResult =
     snd (fs_update db complaintId
            (\<lambda>d. d\<lparr>doc_status := Some (status callResult),
                    doc_resolution := (if resolution callResult = [] then None
                                       else Some (resolution callResult)),
                    doc_nextSteps := Some (nextSteps callResult),
                    doc_lastCallId := callId callResult\<rparr>))"

definition shouldRetryCall :: "nat \<Rightarrow> Firestore \<Rightarrow> string \<Rightarrow> bool \<times> Firestore" where
  "shouldRetryCall maxRetries db complaintId =
     (case fs_get db complaintId of
        (Inl e, db1) \<Rightarrow> (False, db1)
      | (Inr None, db1) \<Rightarrow> (False, db1)
      | (Inr (Some complaintData), db1) \<Rightarrow>
          let retryCount = retryCount_of complaintData in
          if retryCount \<ge> maxRetries then (False, db1)
          else (case fs_update db1 complaintId
                       (\<lambda>d. d\<lparr>doc_retryCount := Some (retryCount_of d + 1)\<rparr>) of
                  (Inl e, db2) \<Rightarrow> (False, db2)
                | (Inr u, db2) \<Rightarrow> (True, db2)))"

definition retries_left :: "nat \<Rightarrow> Firestore \<Rightarrow> string \<Rightarrow> nat" where
  "retries_left maxRetries db complaintId =
     (case complaints db complaintId of None \<Rightarrow> 0 | Some d \<Rightarrow> maxRetries - retryCount_of d)"

function placeComplaintCall ::
  "nat \<Rightarrow> twilio_client \<Rightarrow> CallWorld \<Rightarrow> string list \<Rightarrow> string \<Rightarrow> CallResult \<times> CallWorld" where
  "placeComplaintCall maxRetries twilioClient world phoneNumbers complaintId =
     (let to = first_number phoneNumbers;
          world1 = world\<lparr>dialled := dialled world @ [to]\<rparr>
      in case twilioClient (length (dialled world)) to of
           Inr sid \<Rightarrow>
             let callResult = \<lparr>status = Resolved, callId = Some sid,
                                resolution = ''Call initiated successfully'',
                                nextSteps = [''Awaiting customer service response'']\<rparr>
             in (callResult,
                 world1\<lparr>firestore := updateComplaintStatus (firestore world1) complaintId callResult\<rparr>)
         | Inl error \<Rightarrow>
             (case shouldRetryCall maxRetries (firestore world1) complaintId of
                (True, db2) \<Rightarrow>
                  placeComplaintCall maxRetries twilioClient (world1\<lparr>firestore := db2\<rparr>)
                    phoneNumbers complaintId
              | (False, db2) \<Rightarrow>
                  let failureResult = \<lparr>status = Failed, callId = Some ''failed_call'',
                                        resolution = ''Call failed: '' @ error_message error,
                                        nextSteps = []\<rparr>
                  in (failureResult,
                      world1\<lparr>firestore := updateComplaintStatus db2 complaintId failureResult\<rparr>)))"
  by pat_completeness auto
termination
  apply (relation "measure (\<lambda>(maxRetries, twilioClient, world, phoneNumbers, complaintId).
                    retries_left maxRetries (firestore world) complaintId)")
   apply simp
  apply (auto simp: shouldRetryCall_def fs_get_def fs_update_def retries_left_def Let_def
          retryCount_of_def split: if_splits option.splits sum.splits prod.splits)
  done

subsection \<open>Reading the reference number off a transcript\<close>

definition alts :: "string list \<Rightarrow> regex" where
  "alts ws = foldr (\<lambda>w r. Alt (Lit w) r) (butlast ws) (Lit (last ws))"

definition referencePatterns :: "RegExp list" where
  "referencePatterns =
     [\<lparr>source =
         Seq (alts [''reference'', ''confirmation'', ''case'', ''ticket'', ''order'', ''claim''])
        (Seq (Rep (OneOf whitespace_chars) 0)
        (Seq (Opt (alts [''number'', ''#'', ''id'']))
        (Seq (Rep (OneOf whitespace_chars) 0)
        (Seq (Opt (Lit '':''))
        (Seq (Rep (OneOf whitespace_chars) 0)
             (Capture (Rep (OneOf (upper_letters @ digit_chars)) 4))))))),
       ignoreCase = True, global = False\<rparr>,
      \<lparr>source =
         Capture (Alt (Seq (Rep (OneOf upper_letters) 2) (Rep (OneOf digit_chars) 4))
                      (Seq (Rep (OneOf digit_chars) 6) (Rep (OneOf upper_letters) 2))),
       ignoreCase = False, global = True\<rparr>,
      \<lparr>source = Capture (Rep (OneOf (upper_letters @ digit_chars)) 8),
       ignoreCase = False, global = True\<rparr>]"

record TranscriptEntry =
  user :: string
  entry_text :: string

text \<open>\<^verbatim>\<open>matches[1] || matches[0]\<close>\<close>

definition truthy_elem :: "string option \<Rightarrow> bool" where
  "truthy_elem e = (case e of None \<Rightarrow> False | Some t \<Rightarrow> t \<noteq> [])"

definition elem_at :: "string option list \<Rightarrow> nat \<Rightarrow> string option" where
  "elem_at xs n = (if n < length xs then xs ! n else None)"

fun first_pattern_match :: "string \<Rightarrow> RegExp list \<Rightarrow> string option list option" where
  "first_pattern_match t [] = None"
| "first_pattern_match t (pattern # patterns) =
     (case str_match t pattern of
        None \<Rightarrow> first_pattern_match t patterns
      | Some matches \<Rightarrow> Some matches)"

fun scan_entries :: "TranscriptEntry list \<Rightarrow> string option" where
  "scan_entries [] = None"
| "scan_entries (entry # entries) =
     (if user entry = ''assistant'' then scan_entries entries
      else case first_pattern_match (entry_text entry) referencePatterns of
             None \<Rightarrow> scan_entries entries
           | Some matches \<Rightarrow>
               (if truthy_elem (elem_at matches 1) then elem_at matches 1 else elem_at matches 0))"

definition extractReferenceNumber :: "TranscriptEntry list \<Rightarrow> string option" where
  "extractReferenceNumber transcript =
     (if length transcript = 0 then None else scan_entries (rev transcript))"

declare placeComplaintCall.simps [simp del]

subsection \<open>Sample data\<close>

definition empty_doc :: ComplaintDoc where
  "empty_doc =
     \<lparr>doc_userId = None, doc_rawText = None, doc_conversationHistory = None,
      doc_extractedFields = None, doc_finalConfidence = None, doc_complaintType = None,
      doc_userDetails = None, doc_questionFlowCompleted = None, doc_questionsAsked = None,
      doc_questionsAnswered = None, doc_retryCount = None, doc_status = None,
      doc_resolution = None, doc_nextSteps = None, doc_lastCallId = None\<rparr>"

text \<open>A store that never fails, holding one new complaint \<^verbatim>\<open>c1\<close> with retry count 0.\<close>

definition sample_firestore :: Firestore where
  "sample_firestore =
     \<lparr>complaints = [''c1'' \<mapsto> empty_doc\<lparr>doc_rawText := Some ''My card was charged twice'',
                                           doc_retryCount := Some 0\<rparr>],
      users = Map.empty, opCount = 0, failing = (\<lambda>n. False)\<rparr>"

definition sample_world :: CallWorld where
  "sample_world = \<lparr>firestore = sample_firestore, dialled = []\<rparr>"

definition sample_fallback_context :: EnhancedComplaintContext where
  "sample_fallback_context =
     \<lparr>originalComplaint = ''My card was charged twice'',
      customerDetails = Some \<lparr>name = Some ''Asha'', email = None, phone = Some ''+15550100''\<rparr>,
      contactPhoneNumbers = None, conversationHistory = [], finalConfidence = Fin 0,
      extractedFields = [], complaintType = None, userDetails = None\<rparr>"

text \<open>An answered turn that carries a given confidence delta.\<close>

definition delta_turn :: "number \<Rightarrow> ConversationTurn" where
  "delta_turn x = \<lparr>turn_id = ''t'', question = ''When did it happen?'', answer = ''Yesterday'',
                    timestamp = 0, extractedInfo = [], confidenceDelta = x\<rparr>"

text \<open>An environment whose chat service answers every request.\<close>

definition sample_env :: Collaborators where
  "sample_env =
     \<lparr>chat = (\<lambda>role p. case p of
                 ShouldContinuePrompt complaint summary known \<Rightarrow> Inr (Some ''CONTINUE'')
               | GenerateQuestionPrompt complaint summary known final \<Rightarrow>
                   Inr (Some ''1. When exactly did the double charge occur?'')
               | ExtractFromAnswerPrompt complaint asked reply known \<Rightarrow>
                   Inr (Some ''Here it is: {\"date\": \"yesterday\"}'')
               | ExtractFromTextPrompt complaint \<Rightarrow> Inr (Some ''{}'')),
      json_parse = (\<lambda>s. if s = ''{}'' then Some (JObject [])
                        else if s = ''{\"date\": \"yesterday\"}''
                             then Some (JObject [(''date'', ''yesterday'')])
                        else None),
      uuidv4 = ''q1'', now = 1000\<rparr>"

text \<open>An environment whose chat service says to continue but fails to generate questions,
  so that the template questions are asked.\<close>

definition fallback_env :: Collaborators where
  "fallback_env =
     \<lparr>chat = (\<lambda>role p. case p of
                 ShouldContinuePrompt complaint summary known \<Rightarrow> Inr (Some ''CONTINUE'')
               | GenerateQuestionPrompt complaint summary known final \<Rightarrow>
                   Inl (Error ''rate limited'')
               | ExtractFromAnswerPrompt complaint asked reply known \<Rightarrow> Inr (Some ''{}'')
               | ExtractFromTextPrompt complaint \<Rightarrow> Inr (Some ''{}'')),
      json_parse = (\<lambda>s. if s = ''{}'' then Some (JObject []) else None),
      uuidv4 = ''q1'', now = 1000\<rparr>"

text \<open>An environment whose chat service is down.\<close>

definition offline_env :: Collaborators where
  "offline_env =
     \<lparr>chat = (\<lambda>role p. Inl (Error ''connection timed out'')),
      json_parse = (\<lambda>s. None), uuidv4 = ''q1'', now = 1000\<rparr>"

definition sample_seed :: ComplaintContext where
  "sample_seed = \<lparr>rawText = ''My card was charged twice'', confidence = js_literal (5 / 10),
                   seed_complaintType = None, extractedFeatures = None\<rparr>"

text \<open>A complaint in mid-dialogue: the first question is answered, the second is pending.\<close>

definition mid_dialogue_doc :: ComplaintDoc where
  "mid_dialogue_doc =
     empty_doc\<lparr>doc_rawText := Some ''My card was charged twice'',
         doc_conversationHistory := Some
           [\<lparr>turn_id = ''q1'', question = ''When exactly did the double charge occur?'',
              answer = ''Yesterday'', timestamp = 1000, extractedInfo = [(''date'', ''yesterday'')],
              confidenceDelta = js_literal (2 / 10)\<rparr>,
            \<lparr>turn_id = ''q2'', question = ''What outcome are you hoping for?'',
              answer = [], timestamp = 2000, extractedInfo = [],
              confidenceDelta = js_literal 0\<rparr>]\<rparr>"

definition mid_dialogue_store :: Firestore where
  "mid_dialogue_store =
     \<lparr>complaints = [''c1'' \<mapsto> mid_dialogue_doc],
      users = Map.empty, opCount = 0, failing = (\<lambda>n. False)\<rparr>"

text \<open>
  A dialogue on the new complaint \<^verbatim>\<open>c1\<close>: a question is asked and answered, a second one
  is asked, and then the first question is answered again, with \<open>blank\<close>.
\<close>

definition reopening_run :: "string \<Rightarrow> operation list" where
  "reopening_run blank =
     [AskQuestions fallback_env sample_seed,
      ProcessAnswer fallback_env ''q1'' ''Yesterday'',
      AskQuestions (fallback_env\<lparr>uuidv4 := ''q2''\<rparr>) sample_seed,
      ProcessAnswer fallback_env ''q1'' blank]"

section \<open>Properties of call orchestration\<close>

lemma getUserPhoneNumber_nonempty: "getUserPhoneNumber context \<noteq> []"
  by (auto simp: getUserPhoneNumber_def truthy_string_def Let_def split: option.splits list.splits)

text \<open>
  C9, as stated, fails: for a menu that maps key 3 to technical support, the plan for
  \<^verbatim>\<open>technical_support\<close> presses 2 and then 1, never 3, and it is the very plan returned for
  \<^verbatim>\<open>billing\<close>.
\<close>

theorem generateIVRNavigationPlan_ignores_department:
  "pressed_keys (generateIVRNavigationPlan (Some sample_ivrStructure) ''technical_support'') = [''2'', ''1'']
   \<and> ''3'' \<notin> set (pressed_keys (generateIVRNavigationPlan (Some sample_ivrStructure) ''technical_support''))
   \<and> generateIVRNavigationPlan (Some sample_ivrStructure) ''technical_support''
       = generateIVRNavigationPlan (Some sample_ivrStructure) ''billing''"
  by (simp add: generateIVRNavigationPlan_def sample_ivrStructure_def pressed_keys_def)

text \<open>
  C9, amended: for a non-empty IVR structure generateIVRNavigationPlan returns one fixed
  plan, whatever the structure and the target department: wait for the greeting, press 2,
  wait for the menu, press 1. For an absent or empty structure it returns the generic plan:
  wait for the greeting, press 0 for the operator, wait for the operator.
\<close>

theorem generateIVRNavigationPlan_fixed_plans:
  "generateIVRNavigationPlan (Some (node # nodes)) targetDepartment =
     \<lparr>steps =
        [\<lparr>action = Wait, step_value = ''greeting'', delayMs = 5000,
           description = ''Wait for initial greeting''\<rparr>,
         \<lparr>action = Press, step_value = ''2'', delayMs = 1000,
           description = ''Press 2 for customer service''\<rparr>,
         \<lparr>action = Wait, step_value = ''menu'', delayMs = 3000,
           description = ''Wait for department menu''\<rparr>,
         \<lparr>action = Press, step_value = ''1'', delayMs = 1000,
           description = ''Press 1 for billing issues''\<rparr>],
      estimatedDuration = 10000\<rparr>
   \<and> generateIVRNavigationPlan (Some []) targetDepartment = generateIVRNavigationPlan None targetDepartment
   \<and> generateIVRNavigationPlan None targetDepartment =
     \<lparr>steps =
        [\<lparr>action = Wait, step_value = ''greeting'', delayMs = 5000,
           description = ''Wait for initial greeting''\<rparr>,
         \<lparr>action = Press, step_value = ''0'', delayMs = 1000,
           description = ''Press 0 to reach an operator''\<rparr>,
         \<lparr>action = Wait, step_value = ''operator'', delayMs = 10000,
           description = ''Wait for operator''\<rparr>],
      estimatedDuration = 16000\<rparr>"
  by (simp add: generateIVRNavigationPlan_def)

text \<open>
  C8: handleFallback throws when placing the company call on hold reports failure, and then
  the hold request is the only call made (no side call to the customer); it throws when
  resuming reports failure after the side call; and it returns a FallbackResult only when
  hold, side call and resume have all succeeded, made in that order.
\<close>

theorem handleFallback_hold_and_resume:
  "(placeCallOnHold tc callSid = Inr False \<longrightarrow>
      handleFallback tc callSid context missingInfo complaintId =
        (Inl (Error ''Fallback handling failed: Failed to place call on hold''),
         [PlaceCallOnHold callSid]))
   \<and> (placeCallOnHold tc callSid = Inr True
        \<and> callUserForFallback tc (getUserPhoneNumber context) missingInfo complaintId = Inr r
        \<and> resumeCall tc callSid = Inr False \<longrightarrow>
      fst (handleFallback tc callSid context missingInfo complaintId) =
        Inl (Error ''Fallback handling failed: Failed to resume call after fallback''))
   \<and> (fst (handleFallback tc callSid context missingInfo complaintId) = Inr r \<longrightarrow>
        placeCallOnHold tc callSid = Inr True
        \<and> callUserForFallback tc (getUserPhoneNumber context) missingInfo complaintId = Inr r
        \<and> resumeCall tc callSid = Inr True
        \<and> snd (handleFallback tc callSid context missingInfo complaintId) =
            [PlaceCallOnHold callSid,
             CallUserForFallback (getUserPhoneNumber context) missingInfo complaintId,
             ResumeCall callSid])"
  using getUserPhoneNumber_nonempty [of "context"]
  by (auto simp: handleFallback_def wrap_fallback_error_def error_message_def Let_def
        split: sum.splits if_splits)

theorem handleFallback_hold_and_resume_witness:
  "handleFallback ((twilioController False (Fin 1700000000))\<lparr>placeCallOnHold := (\<lambda>sid. Inr False)\<rparr>)
       ''CA1'' sample_fallback_context [''account_number''] ''c1'' =
     (Inl (Error ''Fallback handling failed: Failed to place call on hold''), [PlaceCallOnHold ''CA1''])
   \<and> fst (handleFallback ((twilioController False (Fin 1700000000))\<lparr>resumeCall := (\<lambda>sid. Inr False)\<rparr>)
       ''CA1'' sample_fallback_context [''account_number''] ''c1'') =
     Inl (Error ''Fallback handling failed: Failed to resume call after fallback'')
   \<and> handleFallback (twilioController False (Fin 1700000000))
       ''CA1'' sample_fallback_context [''account_number''] ''c1'' =
     (Inr \<lparr>userResponses = [(''account_number'', ''AC123456789'')], callResumed = True,
           resumeTimestamp = Fin 1700000000\<rparr>,
      [PlaceCallOnHold ''CA1'', CallUserForFallback ''+15550100'' [''account_number''] ''c1'',
       ResumeCall ''CA1''])"
  using handleFallback_hold_and_resume
      [of "(twilioController False (Fin 1700000000))\<lparr>placeCallOnHold := (\<lambda>sid. Inr False)\<rparr>"
          "''CA1''" sample_fallback_context "[''account_number'']" "''c1''"]
    handleFallback_hold_and_resume
      [of "(twilioController False (Fin 1700000000))\<lparr>resumeCall := (\<lambda>sid. Inr False)\<rparr>"
          "''CA1''" sample_fallback_context "[''account_number'']" "''c1''"
          "\<lparr>userResponses = [(''account_number'', ''AC123456789'')], callResumed = True,
            resumeTimestamp = Fin 1700000000\<rparr>"]
    handleFallback_hold_and_resume
      [of "twilioController False (Fin 1700000000)"
          "''CA1''" sample_fallback_context "[''account_number'']" "''c1''"
          "\<lparr>userResponses = [(''account_number'', ''AC123456789'')], callResumed = True,
            resumeTimestamp = Fin 1700000000\<rparr>"]
  by (simp add: twilioController_def sample_fallback_context_def getUserPhoneNumber_def
        truthy_string_def simulated_response_def js_includes_def starts_with_def set_field_def
        handleFallback_def wrap_fallback_error_def error_message_def)

text \<open>
  C10: whenever the telephony client's call creation succeeds, placeComplaintCall returns at
  once a CallResult with status resolved, resolution "Call initiated successfully" and the
  new call's sid as callId. Its only effects are that one dial and one store request (the
  status update): nothing is monitored, fetched or extracted before it returns.
\<close>

theorem placeComplaintCall_initiated:
  assumes "twilioClient (length (dialled world)) (first_number phoneNumbers) = Inr sid"
  shows "fst (placeComplaintCall maxRetries twilioClient world phoneNumbers complaintId) =
           \<lparr>status = Resolved, callId = Some sid, resolution = ''Call initiated successfully'',
            nextSteps = [''Awaiting customer service response'']\<rparr>
         \<and> dialled (snd (placeComplaintCall maxRetries twilioClient world phoneNumbers complaintId)) =
             dialled world @ [first_number phoneNumbers]
         \<and> opCount (firestore (snd (placeComplaintCall maxRetries twilioClient world phoneNumbers complaintId))) =
             Suc (opCount (firestore world))"
  using assms
  by (subst placeComplaintCall.simps, subst (2) placeComplaintCall.simps,
      subst (3) placeComplaintCall.simps)
     (auto simp: Let_def updateComplaintStatus_def fs_update_def split: option.splits)

theorem placeComplaintCall_initiated_witness:
  "fst (placeComplaintCall 2 (\<lambda>n to. Inr ''CA42'') sample_world [''+18005550199''] ''c1'') =
     \<lparr>status = Resolved, callId = Some ''CA42'', resolution = ''Call initiated successfully'',
      nextSteps = [''Awaiting customer service response'']\<rparr>
   \<and> dialled (snd (placeComplaintCall 2 (\<lambda>n to. Inr ''CA42'') sample_world [''+18005550199''] ''c1'')) =
       [Some ''+18005550199'']
   \<and> opCount (firestore (snd (placeComplaintCall 2 (\<lambda>n to. Inr ''CA42'') sample_world
         [''+18005550199''] ''c1''))) = 1"
  using placeComplaintCall_initiated
      [of "\<lambda>n to. Inr ''CA42''" sample_world "[''+18005550199'']" "''CA42''" 2 "''c1''"]
  by (simp add: sample_world_def sample_firestore_def first_number_def)

lemma shouldRetryCall_working:
  assumes "\<And>n. \<not> failing db n" "complaints db cid = Some d"
  shows "shouldRetryCall maxRetries db cid =
           (if retryCount_of d \<ge> maxRetries then (False, db\<lparr>opCount := Suc (opCount db)\<rparr>)
            else (True, db\<lparr>complaints := (complaints db)(cid \<mapsto> d\<lparr>doc_retryCount := Some (retryCount_of d + 1)\<rparr>),
                          opCount := Suc (Suc (opCount db))\<rparr>))"
  using assms by (simp add: shouldRetryCall_def fs_get_def fs_update_def Let_def)

text \<open>With a client that always fails and a working store, the call is dialled once more
  for every retry the counter still allows, and then fails for good.\<close>

lemma placeComplaintCall_always_failing:
  assumes "\<And>n t. twilioClient n t = Inl (err n)"
  shows "(\<And>n. \<not> failing (firestore world) n) \<Longrightarrow> complaints (firestore world) cid = Some d \<Longrightarrow>
         maxRetries - retryCount_of d = k \<Longrightarrow>
         fst (placeComplaintCall maxRetries twilioClient world phoneNumbers cid) =
           \<lparr>status = Failed, callId = Some ''failed_call'',
            resolution = ''Call failed: '' @ error_message (err (length (dialled world) + k)),
            nextSteps = []\<rparr>
         \<and> dialled (snd (placeComplaintCall maxRetries twilioClient world phoneNumbers cid)) =
             dialled world @ replicate (Suc k) (first_number phoneNumbers)"
proof (induction k arbitrary: world d)
  case 0
  then have "retryCount_of d \<ge> maxRetries" by simp
  with 0 assms show ?case
    by (subst placeComplaintCall.simps, subst (2) placeComplaintCall.simps)
       (simp add: shouldRetryCall_working [where d = d] Let_def)
next
  case (Suc k)
  let ?to = "first_number phoneNumbers"
  let ?d' = "d\<lparr>doc_retryCount := Some (retryCount_of d + 1)\<rparr>"
  let ?db = "firestore world"
  let ?db2 = "?db\<lparr>complaints := (complaints ?db)(cid \<mapsto> ?d'), opCount := Suc (Suc (opCount ?db))\<rparr>"
  let ?w2 = "world\<lparr>dialled := dialled world @ [?to], firestore := ?db2\<rparr>"
  from Suc.prems have lt: "\<not> retryCount_of d \<ge> maxRetries" by simp
  have step: "placeComplaintCall maxRetries twilioClient world phoneNumbers cid =
              placeComplaintCall maxRetries twilioClient ?w2 phoneNumbers cid"
    using Suc.prems(1,2) lt assms
    by (subst placeComplaintCall.simps)
       (simp add: shouldRetryCall_working [where d = d] Let_def)
  have "maxRetries - retryCount_of ?d' = k"
    using Suc.prems(3) by (simp add: retryCount_of_def)
  moreover have "\<And>n. \<not> failing (firestore ?w2) n" using Suc.prems(1) by simp
  moreover have "complaints (firestore ?w2) cid = Some ?d'" by simp
  ultimately have IH:
    "fst (placeComplaintCall maxRetries twilioClient ?w2 phoneNumbers cid) =
           \<lparr>status = Failed, callId = Some ''failed_call'',
            resolution = ''Call failed: '' @ error_message (err (length (dialled ?w2) + k)),
            nextSteps = []\<rparr>
         \<and> dialled (snd (placeComplaintCall maxRetries twilioClient ?w2 phoneNumbers cid)) =
             dialled ?w2 @ replicate (Suc k) ?to"
    using Suc.IH [of ?w2 ?d'] by blast
  show ?case unfolding step using IH by (simp add: replicate_app_Cons_same)
qed

text \<open>A retry that \<open>shouldRetryCall\<close> grants uses up one of the retries the counter allows.\<close>

lemma shouldRetryCall_granted:
  assumes "shouldRetryCall maxRetries db cid = (True, db2)"
  shows "Suc (retries_left maxRetries db2 cid) \<le> retries_left maxRetries db cid"
  using assms
  by (auto simp: shouldRetryCall_def fs_get_def fs_update_def retries_left_def Let_def
        retryCount_of_def split: if_splits option.splits)

text \<open>The retry check says no when its read of the complaint or its write of the counter
  is refused.\<close>

lemma shouldRetryCall_store_failure:
  assumes "failing db (opCount db) \<or> failing db (Suc (opCount db))"
  shows "fst (shouldRetryCall maxRetries db cid) = False"
  using assms
  by (auto simp: shouldRetryCall_def fs_get_def fs_update_def Let_def split: option.splits)

text \<open>With a client that always fails, whatever the store does: the call fails with the
  message of the last attempt, after at least one attempt and at most one more than the
  retries the counter allows.\<close>

lemma placeComplaintCall_failing_client:
  assumes "\<And>n t. twilioClient n t = Inl (err n)"
  shows "fst (placeComplaintCall maxRetries twilioClient world phoneNumbers cid) =
           \<lparr>status = Failed, callId = Some ''failed_call'',
            resolution = ''Call failed: '' @ error_message
              (err (length (dialled (snd (placeComplaintCall maxRetries twilioClient world phoneNumbers cid))) - 1)),
            nextSteps = []\<rparr>
         \<and> length (dialled world)
             < length (dialled (snd (placeComplaintCall maxRetries twilioClient world phoneNumbers cid)))
         \<and> length (dialled (snd (placeComplaintCall maxRetries twilioClient world phoneNumbers cid)))
             \<le> length (dialled world) + Suc (retries_left maxRetries (firestore world) cid)
         \<and> set (dialled (snd (placeComplaintCall maxRetries twilioClient world phoneNumbers cid)))
             \<subseteq> set (dialled world) \<union> {first_number phoneNumbers}"
  using assms
proof (induction maxRetries twilioClient world phoneNumbers cid rule: placeComplaintCall.induct)
  case (1 maxRetries twilioClient world phoneNumbers complaintId)
  let ?to = "first_number phoneNumbers"
  let ?w1 = "world\<lparr>dialled := dialled world @ [?to]\<rparr>"
  have c: "twilioClient (length (dialled world)) ?to = Inl (err (length (dialled world)))"
    using "1.prems" by simp
  obtain b db2 where s: "shouldRetryCall maxRetries (firestore ?w1) complaintId = (b, db2)"
    by (cases "shouldRetryCall maxRetries (firestore ?w1) complaintId") auto
  show ?case
  proof (cases b)
    case True
    have step: "placeComplaintCall maxRetries twilioClient world phoneNumbers complaintId =
                placeComplaintCall maxRetries twilioClient (?w1\<lparr>firestore := db2\<rparr>) phoneNumbers complaintId"
      using c s True by (subst placeComplaintCall.simps) (simp add: Let_def)
    have s': "(True, db2) = shouldRetryCall maxRetries (firestore ?w1) complaintId"
      using s True by simp
    have IH: "fst (placeComplaintCall maxRetries twilioClient (?w1\<lparr>firestore := db2\<rparr>) phoneNumbers complaintId) =
           \<lparr>status = Failed, callId = Some ''failed_call'',
            resolution = ''Call failed: '' @ error_message
              (err (length (dialled (snd (placeComplaintCall maxRetries twilioClient (?w1\<lparr>firestore := db2\<rparr>) phoneNumbers complaintId))) - 1)),
            nextSteps = []\<rparr>
         \<and> length (dialled (?w1\<lparr>firestore := db2\<rparr>))
             < length (dialled (snd (placeComplaintCall maxRetries twilioClient (?w1\<lparr>firestore := db2\<rparr>) phoneNumbers complaintId)))
         \<and> length (dialled (snd (placeComplaintCall maxRetries twilioClient (?w1\<lparr>firestore := db2\<rparr>) phoneNumbers complaintId)))
             \<le> length (dialled (?w1\<lparr>firestore := db2\<rparr>))
                 + Suc (retries_left maxRetries (firestore (?w1\<lparr>firestore := db2\<rparr>)) complaintId)
         \<and> set (dialled (snd (placeComplaintCall maxRetries twilioClient (?w1\<lparr>firestore := db2\<rparr>) phoneNumbers complaintId)))
             \<subseteq> set (dialled (?w1\<lparr>firestore := db2\<rparr>)) \<union> {first_number phoneNumbers}"
      by (rule "1.IH" [OF refl refl c s' refl "1.prems"])
    from shouldRetryCall_granted [of maxRetries "firestore world" complaintId db2] s True
    have "Suc (retries_left maxRetries db2 complaintId) \<le> retries_left maxRetries (firestore world) complaintId"
      by simp
    with IH show ?thesis unfolding step by auto
  next
    case False
    then show ?thesis using c s
      by (subst placeComplaintCall.simps, subst (2) placeComplaintCall.simps,
          subst (3) placeComplaintCall.simps, subst (4) placeComplaintCall.simps,
          subst (5) placeComplaintCall.simps)
         (simp add: Let_def)
  qed
qed

text \<open>When the store refuses the read or the write of the retry check, one failed attempt
  is the only one.\<close>

lemma placeComplaintCall_store_failure:
  assumes "twilioClient (length (dialled world)) (first_number phoneNumbers) = Inl e"
    and "failing (firestore world) (opCount (firestore world))
         \<or> failing (firestore world) (Suc (opCount (firestore world)))"
  shows "placeComplaintCall maxRetries twilioClient world phoneNumbers cid =
           (\<lparr>status = Failed, callId = Some ''failed_call'',
             resolution = ''Call failed: '' @ error_message e, nextSteps = []\<rparr>,
            world\<lparr>dialled := dialled world @ [first_number phoneNumbers],
                  firestore := updateComplaintStatus
                     (snd (shouldRetryCall maxRetries (firestore world) cid)) cid
                     \<lparr>status = Failed, callId = Some ''failed_call'',
                      resolution = ''Call failed: '' @ error_message e, nextSteps = []\<rparr>\<rparr>)"
proof -
  obtain db2 where "shouldRetryCall maxRetries (firestore world) cid = (False, db2)"
    using shouldRetryCall_store_failure [OF assms(2), of maxRetries cid]
    by (cases "shouldRetryCall maxRetries (firestore world) cid") auto
  then show ?thesis
    using assms(1) by (subst placeComplaintCall.simps) (simp add: Let_def)
qed

text \<open>
  C5, as stated, fails: with maxRetries = 2, a stored retry count of 0 and a telephony
  client whose call creation always fails, a store that refuses its first request (the
  retry check's read of the complaint) makes placeComplaintCall dial once, not three
  times, before it returns the failed CallResult.
\<close>

theorem placeComplaintCall_single_attempt:
  "map_option retryCount_of (complaints sample_firestore ''c1'') = Some 0
   \<and> dialled (snd (placeComplaintCall 2 (\<lambda>n to. Inl (Error ''line busy''))
        (sample_world\<lparr>firestore := sample_firestore\<lparr>failing := (\<lambda>n. n = 0)\<rparr>\<rparr>)
        [''+18005550199''] ''c1'')) = [Some ''+18005550199'']
   \<and> fst (placeComplaintCall 2 (\<lambda>n to. Inl (Error ''line busy''))
        (sample_world\<lparr>firestore := sample_firestore\<lparr>failing := (\<lambda>n. n = 0)\<rparr>\<rparr>)
        [''+18005550199''] ''c1'') =
     \<lparr>status = Failed, callId = Some ''failed_call'', resolution = ''Call failed: line busy'',
      nextSteps = []\<rparr>"
proof -
  have "failing (firestore (sample_world\<lparr>firestore := sample_firestore\<lparr>failing := (\<lambda>n. n = 0)\<rparr>\<rparr>))
          (opCount (firestore (sample_world\<lparr>firestore := sample_firestore\<lparr>failing := (\<lambda>n. n = 0)\<rparr>\<rparr>)))
        \<or> failing (firestore (sample_world\<lparr>firestore := sample_firestore\<lparr>failing := (\<lambda>n. n = 0)\<rparr>\<rparr>))
          (Suc (opCount (firestore (sample_world\<lparr>firestore := sample_firestore\<lparr>failing := (\<lambda>n. n = 0)\<rparr>\<rparr>))))"
    by (simp add: sample_firestore_def)
  then have "placeComplaintCall 2 (\<lambda>n to. Inl (Error ''line busy''))
        (sample_world\<lparr>firestore := sample_firestore\<lparr>failing := (\<lambda>n. n = 0)\<rparr>\<rparr>)
        [''+18005550199''] ''c1'' =
      (\<lparr>status = Failed, callId = Some ''failed_call'',
        resolution = ''Call failed: '' @ error_message (Error ''line busy''), nextSteps = []\<rparr>,
       (sample_world\<lparr>firestore := sample_firestore\<lparr>failing := (\<lambda>n. n = 0)\<rparr>\<rparr>)
         \<lparr>dialled := dialled (sample_world\<lparr>firestore := sample_firestore\<lparr>failing := (\<lambda>n. n = 0)\<rparr>\<rparr>)
                       @ [first_number [''+18005550199'']],
          firestore := updateComplaintStatus
             (snd (shouldRetryCall 2
                (firestore (sample_world\<lparr>firestore := sample_firestore\<lparr>failing := (\<lambda>n. n = 0)\<rparr>\<rparr>)) ''c1''))
             ''c1''
             \<lparr>status = Failed, callId = Some ''failed_call'',
              resolution = ''Call failed: '' @ error_message (Error ''line busy''), nextSteps = []\<rparr>\<rparr>)"
    by (intro placeComplaintCall_store_failure) simp_all
  then show ?thesis
    by (simp add: sample_world_def sample_firestore_def first_number_def retryCount_of_def
          error_message_def)
qed

text \<open>
  C5, amended: with a telephony client whose call creation always fails, placeComplaintCall
  returns, rather than throws, a CallResult with status failed whose resolution text
  carries the message of the last error, after at least one dial attempt and at most one
  more than the retries that the stored counter still allows below maxRetries. With
  maxRetries = 2, a stored retry count of 0 and a store that answers every request, it
  dials exactly three times (two retries). When the store refuses the read or the write
  of the retry check after the first attempt, no retry is made and it dials exactly once.
\<close>

theorem placeComplaintCall_retry_cap:
  assumes "\<And>n t. twilioClient n t = Inl (err n)"
  shows "fst (placeComplaintCall maxRetries twilioClient world phoneNumbers complaintId) =
           \<lparr>status = Failed, callId = Some ''failed_call'',
            resolution = ''Call failed: '' @ error_message
              (err (length (dialled (snd (placeComplaintCall maxRetries twilioClient world phoneNumbers
                                            complaintId))) - 1)),
            nextSteps = []\<rparr>
         \<and> length (dialled world)
             < length (dialled (snd (placeComplaintCall maxRetries twilioClient world phoneNumbers complaintId)))
         \<and> length (dialled (snd (placeComplaintCall maxRetries twilioClient world phoneNumbers complaintId)))
             \<le> length (dialled world) + Suc (retries_left maxRetries (firestore world) complaintId)
         \<and> ((\<forall>n. \<not> failing (firestore world) n) \<and> complaints (firestore world) complaintId = Some d
              \<and> retryCount_of d = 0 \<longrightarrow>
            dialled (snd (placeComplaintCall 2 twilioClient world phoneNumbers complaintId)) =
              dialled world @ [first_number phoneNumbers, first_number phoneNumbers, first_number phoneNumbers]
            \<and> fst (placeComplaintCall 2 twilioClient world phoneNumbers complaintId) =
                \<lparr>status = Failed, callId = Some ''failed_call'',
                 resolution = ''Call failed: '' @ error_message (err (length (dialled world) + 2)),
                 nextSteps = []\<rparr>)
         \<and> (failing (firestore world) (opCount (firestore world))
              \<or> failing (firestore world) (Suc (opCount (firestore world))) \<longrightarrow>
            dialled (snd (placeComplaintCall maxRetries twilioClient world phoneNumbers complaintId)) =
              dialled world @ [first_number phoneNumbers]
            \<and> fst (placeComplaintCall maxRetries twilioClient world phoneNumbers complaintId) =
                \<lparr>status = Failed, callId = Some ''failed_call'',
                 resolution = ''Call failed: '' @ error_message (err (length (dialled world))),
                 nextSteps = []\<rparr>)"
proof (intro conjI impI)
  note g = placeComplaintCall_failing_client [where twilioClient = twilioClient and err = err
      and maxRetries = maxRetries and world = world and phoneNumbers = phoneNumbers
      and cid = complaintId, OF assms]
  from g show "fst (placeComplaintCall maxRetries twilioClient world phoneNumbers complaintId) =
           \<lparr>status = Failed, callId = Some ''failed_call'',
            resolution = ''Call failed: '' @ error_message
              (err (length (dialled (snd (placeComplaintCall maxRetries twilioClient world phoneNumbers
                                            complaintId))) - 1)),
            nextSteps = []\<rparr>"
    by blast
  from g show "length (dialled world)
             < length (dialled (snd (placeComplaintCall maxRetries twilioClient world phoneNumbers complaintId)))"
    by blast
  from g show "length (dialled (snd (placeComplaintCall maxRetries twilioClient world phoneNumbers complaintId)))
             \<le> length (dialled world) + Suc (retries_left maxRetries (firestore world) complaintId)"
    by blast
next
  assume a: "(\<forall>n. \<not> failing (firestore world) n) \<and> complaints (firestore world) complaintId = Some d
              \<and> retryCount_of d = 0"
  then have k: "2 - retryCount_of d = 2" and f: "\<And>n. \<not> failing (firestore world) n"
    and c: "complaints (firestore world) complaintId = Some d"
    by simp_all
  note r = placeComplaintCall_always_failing [where twilioClient = twilioClient and err = err
      and phoneNumbers = phoneNumbers, OF assms f c k]
  from r show "dialled (snd (placeComplaintCall 2 twilioClient world phoneNumbers complaintId)) =
              dialled world @ [first_number phoneNumbers, first_number phoneNumbers, first_number phoneNumbers]"
    by (simp add: numeral_3_eq_3 numeral_2_eq_2)
  from r show "fst (placeComplaintCall 2 twilioClient world phoneNumbers complaintId) =
                \<lparr>status = Failed, callId = Some ''failed_call'',
                 resolution = ''Call failed: '' @ error_message (err (length (dialled world) + 2)),
                 nextSteps = []\<rparr>"
    by simp
next
  assume a: "failing (firestore world) (opCount (firestore world))
              \<or> failing (firestore world) (Suc (opCount (firestore world)))"
  have c: "twilioClient (length (dialled world)) (first_number phoneNumbers) = Inl (err (length (dialled world)))"
    using assms by simp
  note r = placeComplaintCall_store_failure [where twilioClient = twilioClient and world = world
      and phoneNumbers = phoneNumbers and maxRetries = maxRetries and cid = complaintId, OF c a]
  show "dialled (snd (placeComplaintCall maxRetries twilioClient world phoneNumbers complaintId)) =
              dialled world @ [first_number phoneNumbers]"
    unfolding r by simp
  show "fst (placeComplaintCall maxRetries twilioClient world phoneNumbers complaintId) =
                \<lparr>status = Failed, callId = Some ''failed_call'',
                 resolution = ''Call failed: '' @ error_message (err (length (dialled world))),
                 nextSteps = []\<rparr>"
    unfolding r by simp
qed

theorem placeComplaintCall_retry_cap_witness:
  "dialled (snd (placeComplaintCall 2 (\<lambda>n to. Inl (Error ''line busy'')) sample_world
      [''+18005550199''] ''c1'')) =
     [Some ''+18005550199'', Some ''+18005550199'', Some ''+18005550199'']
   \<and> fst (placeComplaintCall 2 (\<lambda>n to. Inl (Error ''line busy'')) sample_world
      [''+18005550199''] ''c1'') =
     \<lparr>status = Failed, callId = Some ''failed_call'', resolution = ''Call failed: line busy'',
      nextSteps = []\<rparr>
   \<and> dialled (snd (placeComplaintCall 2 (\<lambda>n to. Inl (Error ''line busy''))
        (sample_world\<lparr>firestore := sample_firestore\<lparr>failing := (\<lambda>n. n = 1)\<rparr>\<rparr>)
        [''+18005550199''] ''c1'')) = [Some ''+18005550199'']"
proof -
  let ?d = "empty_doc\<lparr>doc_rawText := Some ''My card was charged twice'', doc_retryCount := Some 0\<rparr>"
  let ?w = "sample_world\<lparr>firestore := sample_firestore\<lparr>failing := (\<lambda>n. n = 1)\<rparr>\<rparr>"
  have h1: "(\<forall>n. \<not> failing (firestore sample_world) n)
            \<and> complaints (firestore sample_world) ''c1'' = Some ?d \<and> retryCount_of ?d = 0"
    by (simp add: sample_world_def sample_firestore_def retryCount_of_def)
  have h2: "failing (firestore ?w) (opCount (firestore ?w))
            \<or> failing (firestore ?w) (Suc (opCount (firestore ?w)))"
    by (simp add: sample_firestore_def)
  from placeComplaintCall_retry_cap [where twilioClient = "\<lambda>n to. Inl (Error ''line busy'')"
      and err = "\<lambda>n. Error ''line busy''" and maxRetries = 2 and world = sample_world
      and phoneNumbers = "[''+18005550199'']" and complaintId = "''c1''" and d = ?d, OF refl] h1
  have 1: "dialled (snd (placeComplaintCall 2 (\<lambda>n to. Inl (Error ''line busy'')) sample_world
               [''+18005550199''] ''c1'')) =
             dialled sample_world @ [first_number [''+18005550199''], first_number [''+18005550199''],
                                     first_number [''+18005550199'']]
           \<and> fst (placeComplaintCall 2 (\<lambda>n to. Inl (Error ''line busy'')) sample_world
               [''+18005550199''] ''c1'') =
             \<lparr>status = Failed, callId = Some ''failed_call'',
              resolution = ''Call failed: '' @ error_message (Error ''line busy''), nextSteps = []\<rparr>"
    by blast
  from placeComplaintCall_retry_cap [where twilioClient = "\<lambda>n to. Inl (Error ''line busy'')"
      and err = "\<lambda>n. Error ''line busy''" and maxRetries = 2 and world = ?w
      and phoneNumbers = "[''+18005550199'']" and complaintId = "''c1''" and d = ?d, OF refl] h2
  have 2: "dialled (snd (placeComplaintCall 2 (\<lambda>n to. Inl (Error ''line busy'')) ?w
               [''+18005550199''] ''c1'')) = dialled ?w @ [first_number [''+18005550199'']]"
    by blast
  from 1 2 show ?thesis
    by (simp add: sample_world_def first_number_def error_message_def)
qed

text \<open>
  C7: on the one-entry transcript whose human line reads "Your case number is ABC12345,
  thank you", extractReferenceNumber returns "number", not "ABC12345": under the flag
  \<^verbatim>\<open>i\<close> the capture class \<^verbatim>\<open>[A-Z0-9]{4,}\<close> accepts the word "number" once the optional
  \<^verbatim>\<open>(?:number|#|id)\<close> has been given up, because "is" is too short to be captured.
\<close>

theorem extractReferenceNumber_case_number:
  "extractReferenceNumber
     [\<lparr>user = ''human'', entry_text = ''Your case number is ABC12345, thank you''\<rparr>] = Some ''number''"
  by code_simp

section \<open>Properties of the confidence score\<close>

lemma pow2_pos: "0 < pow2 e"
  by (simp add: pow2_def)

lemma round_half_even_nonneg: "0 \<le> q \<Longrightarrow> 0 \<le> round_half_even q"
  by (auto simp: round_half_even_def Let_def)

lemma round_double_nonneg: "0 \<le> x \<Longrightarrow> num_le (Fin 0) (round_double x)"
proof (cases "x = 0")
  case True
  then show ?thesis by (simp add: round_double_def)
next
  case False
  assume "0 \<le> x"
  with False have pos: "0 < x" by simp
  define u where "u = pow2 (max (ilog2 \<bar>x\<bar>) (- 1022) - 52)"
  have u: "0 < u" by (simp add: u_def pow2_pos)
  have "0 \<le> \<bar>x\<bar> / u" using u by simp
  then have "0 \<le> round_half_even (\<bar>x\<bar> / u)" by (rule round_half_even_nonneg)
  then have "0 \<le> of_int (round_half_even (\<bar>x\<bar> / u)) * u" using u by simp
  then show ?thesis using pos False
    by (simp add: round_double_def Let_def u_def)
qed

lemma js_add_nonneg:
  "num_le (Fin 0) a \<Longrightarrow> num_le (Fin 0) b \<Longrightarrow> num_le (Fin 0) (js_add a b)"
  by (cases a; cases b) (simp_all add: round_double_nonneg)

lemma add_deltas_nonneg:
  "num_le (Fin 0) acc \<Longrightarrow> \<forall>turn\<in>set turns. num_le (Fin 0) (confidenceDelta turn) \<Longrightarrow>
   num_le (Fin 0) (add_deltas acc turns)"
  by (induction turns arbitrary: acc) (simp_all add: js_add_nonneg)

lemma add_deltas_foldl: "add_deltas acc turns = foldl js_add acc (map confidenceDelta turns)"
  by (induction turns arbitrary: acc) simp_all

lemma js_literal_one: "js_literal 1 = Fin 1"
  by code_simp

lemma math_min_one_bounds:
  "num_le (Fin 0) x \<Longrightarrow> num_le (Fin 0) (math_min (Fin 1) x) \<and> num_le (math_min (Fin 1) x) (Fin 1)"
  by (cases x) (auto simp: math_min_def)

lemma exact_additions_sum:
  "exact_additions (Fin a) turns \<Longrightarrow>
   add_deltas (Fin a) turns = Fin (a + sum_list (map delta_value turns))"
proof (induction turns arbitrary: a)
  case Nil
  then show ?case by simp
next
  case (Cons turn turns)
  from Cons.prems obtain b where b: "confidenceDelta turn = Fin b"
    by (cases "confidenceDelta turn") auto
  with Cons.prems have s: "js_add (Fin a) (confidenceDelta turn) = Fin (a + b)"
    and r: "exact_additions (Fin (a + b)) turns"
    by auto
  from Cons.IH [OF r] s b show ?case
    by (simp add: delta_value_def add.assoc)
qed

lemma exact_additions_Fin:
  "exact_additions acc turns \<Longrightarrow> turns \<noteq> [] \<Longrightarrow> \<exists>a. acc = Fin a"
  by (cases turns; cases acc) auto

text \<open>The doubles that the literals of the source denote, and the sums used below.\<close>

lemma double_literals:
  "js_literal (5 / 10) = Fin (1 / 2)"
  "js_literal (1 / 10) = Fin (3602879701896397 / 36028797018963968)"
  "js_literal (2 / 10) = Fin (3602879701896397 / 18014398509481984)"
  by code_simp+

lemma double_sums:
  "round_double (1 / 2 + 3602879701896397 / 36028797018963968) = Fin (5404319552844595 / 9007199254740992)"
  "round_double (5404319552844595 / 9007199254740992 + 3602879701896397 / 18014398509481984)
     = Fin (3602879701896397 / 4503599627370496)"
  "round_double (1 / 2 + 3602879701896397 / 18014398509481984) = Fin (6305039478318694 / 9007199254740992)"
  "round_double (6305039478318694 / 9007199254740992 + 3602879701896397 / 36028797018963968)
     = Fin (7205759403792793 / 9007199254740992)"
  by code_simp+

lemma exact_sums:
  "round_double (3 / 4) = Fin (3 / 4)" "round_double (7 / 8) = Fin (7 / 8)"
  "round_double (11 / 8) = Fin (11 / 8)" "round_double 1 = Fin 1" "round_double (9 / 8) = Fin (9 / 8)"
  by code_simp+

text \<open>
  C3, as stated, fails: the result depends on the order of the turns. From the initial
  confidence 0.5, the deltas 0.1 then 0.2 give 0.8, and the deltas 0.2 then 0.1 give
  0.7999999999999999.
\<close>

theorem calculateOverallConfidence_order_matters:
  "calculateOverallConfidence (js_literal (5 / 10))
       [delta_turn (js_literal (1 / 10)), delta_turn (js_literal (2 / 10))]
     = Fin (3602879701896397 / 4503599627370496)
   \<and> calculateOverallConfidence (js_literal (5 / 10))
       [delta_turn (js_literal (2 / 10)), delta_turn (js_literal (1 / 10))]
     = Fin (7205759403792793 / 9007199254740992)
   \<and> calculateOverallConfidence (js_literal (5 / 10))
       [delta_turn (js_literal (1 / 10)), delta_turn (js_literal (2 / 10))]
     \<noteq> calculateOverallConfidence (js_literal (5 / 10))
       [delta_turn (js_literal (2 / 10)), delta_turn (js_literal (1 / 10))]"
proof -
  have 1: "calculateOverallConfidence (js_literal (5 / 10))
       [delta_turn (js_literal (1 / 10)), delta_turn (js_literal (2 / 10))]
     = Fin (3602879701896397 / 4503599627370496)"
    unfolding calculateOverallConfidence_def delta_turn_def double_literals js_literal_one
    using double_sums(1,2) by (simp add: math_min_def)
  have 2: "calculateOverallConfidence (js_literal (5 / 10))
       [delta_turn (js_literal (2 / 10)), delta_turn (js_literal (1 / 10))]
     = Fin (7205759403792793 / 9007199254740992)"
    unfolding calculateOverallConfidence_def delta_turn_def double_literals js_literal_one
    using double_sums(3,4) by (simp add: math_min_def)
  show ?thesis unfolding 1 2 by simp
qed

text \<open>
  C3, amended: calculateOverallConfidence(initialConfidence, turns) equals min(1.0, s), where
  s is the floating-point sum that starts from initialConfidence and adds the
  confidenceDelta of each turn from left to right; it is a function of its arguments; for
  every initialConfidence in [0,1] and every sequence of turns with non-negative deltas the
  result lies in [0,1], also when the deltas sum above 1; and the result is the same for two
  orders of the turns whenever no addition rounds in either order.
\<close>

theorem calculateOverallConfidence_clamped_sum:
  "calculateOverallConfidence initialConfidence history =
     math_min (Fin 1) (foldl js_add initialConfidence (map confidenceDelta history))
   \<and> (num_le (Fin 0) initialConfidence \<and> num_le initialConfidence (Fin 1)
        \<and> (\<forall>turn\<in>set history. num_le (Fin 0) (confidenceDelta turn))
      \<longrightarrow> num_le (Fin 0) (calculateOverallConfidence initialConfidence history)
          \<and> num_le (calculateOverallConfidence initialConfidence history) (Fin 1))
   \<and> (mset reordered = mset history \<and> exact_additions initialConfidence history
        \<and> exact_additions initialConfidence reordered
      \<longrightarrow> calculateOverallConfidence initialConfidence reordered
          = calculateOverallConfidence initialConfidence history)"
proof (intro conjI impI)
  show "calculateOverallConfidence initialConfidence history =
     math_min (Fin 1) (foldl js_add initialConfidence (map confidenceDelta history))"
    by (simp add: calculateOverallConfidence_def js_literal_one add_deltas_foldl)
next
  assume a: "num_le (Fin 0) initialConfidence \<and> num_le initialConfidence (Fin 1)
        \<and> (\<forall>turn\<in>set history. num_le (Fin 0) (confidenceDelta turn))"
  then have "num_le (Fin 0) (add_deltas initialConfidence history)"
    by (simp add: add_deltas_nonneg)
  from math_min_one_bounds [OF this]
  show "num_le (Fin 0) (calculateOverallConfidence initialConfidence history)"
    and "num_le (calculateOverallConfidence initialConfidence history) (Fin 1)"
    by (simp_all add: calculateOverallConfidence_def js_literal_one)
next
  assume a: "mset reordered = mset history \<and> exact_additions initialConfidence history
        \<and> exact_additions initialConfidence reordered"
  show "calculateOverallConfidence initialConfidence reordered
          = calculateOverallConfidence initialConfidence history"
  proof (cases "history = []")
    case True
    with a show ?thesis by simp
  next
    case False
    with a obtain x where x: "initialConfidence = Fin x"
      using exact_additions_Fin by blast
    have "sum_list (map delta_value reordered) = sum_list (map delta_value history)"
      using a by (metis mset_map sum_mset_sum_list)
    with a x show ?thesis
      by (simp add: calculateOverallConfidence_def exact_additions_sum)
  qed
qed

theorem calculateOverallConfidence_clamped_sum_witness:
  "calculateOverallConfidence (Fin (1 / 2))
       [delta_turn (Fin (1 / 4)), delta_turn (Fin (1 / 8)), delta_turn (Fin (1 / 2))]
     = math_min (Fin 1) (foldl js_add (Fin (1 / 2))
         (map confidenceDelta [delta_turn (Fin (1 / 4)), delta_turn (Fin (1 / 8)), delta_turn (Fin (1 / 2))]))
   \<and> num_le (Fin 0) (calculateOverallConfidence (Fin (1 / 2))
       [delta_turn (Fin (1 / 4)), delta_turn (Fin (1 / 8)), delta_turn (Fin (1 / 2))])
   \<and> num_le (calculateOverallConfidence (Fin (1 / 2))
       [delta_turn (Fin (1 / 4)), delta_turn (Fin (1 / 8)), delta_turn (Fin (1 / 2))]) (Fin 1)
   \<and> calculateOverallConfidence (Fin (1 / 2))
       [delta_turn (Fin (1 / 2)), delta_turn (Fin (1 / 8)), delta_turn (Fin (1 / 4))]
     = calculateOverallConfidence (Fin (1 / 2))
       [delta_turn (Fin (1 / 4)), delta_turn (Fin (1 / 8)), delta_turn (Fin (1 / 2))]"
proof -
  let ?H = "[delta_turn (Fin (1 / 4)), delta_turn (Fin (1 / 8)), delta_turn (Fin (1 / 2))]"
  let ?R = "[delta_turn (Fin (1 / 2)), delta_turn (Fin (1 / 8)), delta_turn (Fin (1 / 4))]"
  have h1: "num_le (Fin 0) (Fin (1 / 2)) \<and> num_le (Fin (1 / 2)) (Fin 1)
        \<and> (\<forall>turn\<in>set ?H. num_le (Fin 0) (confidenceDelta turn))"
    by (simp add: delta_turn_def)
  have h2: "mset ?R = mset ?H \<and> exact_additions (Fin (1 / 2)) ?H \<and> exact_additions (Fin (1 / 2)) ?R"
    by (simp add: delta_turn_def exact_sums)
  from calculateOverallConfidence_clamped_sum [of "Fin (1 / 2)" ?H ?R] h1 h2
  show ?thesis by blast
qed

section \<open>Properties of the dialogue\<close>

lemma is_answered_iff: "is_answered t \<longleftrightarrow> \<not> is_pending t"
  by (auto simp: is_answered_def is_pending_def)

lemma preAnalyzeComplaint_history [simp]:
  "conversationHistory (preAnalyzeComplaint env c) = conversationHistory c"
  by (simp add: preAnalyzeComplaint_def Let_def)

lemma prepared_context_history [simp]:
  "conversationHistory (prepared_context env ctx d u) = stored_history d"
  by (simp add: prepared_context_def Let_def)

lemma no_pending_all_answered:
  "filter is_pending h = [] \<Longrightarrow> filter is_answered h = h"
  by (induction h) (auto simp: is_answered_iff split: if_splits)

lemma load_user_details_complaints [simp]:
  "complaints (snd (load_user_details db d)) = complaints db"
  by (auto simp: load_user_details_def fs_get_user_def split: prod.splits sum.splits)

lemma load_user_details_none:
  "doc_userId d = None \<Longrightarrow> load_user_details db d = (None, db)"
  by (simp add: load_user_details_def truthy_string_def)

lemma findIndex_Some:
  "findIndex P xs = Some i \<Longrightarrow> i < length xs \<and> P (xs ! i) \<and> (\<forall>j<i. \<not> P (xs ! j))"
proof (induction xs arbitrary: i)
  case Nil
  then show ?case by simp
next
  case (Cons x xs)
  show ?case
  proof (cases "P x")
    case True
    with Cons.prems show ?thesis by simp
  next
    case False
    with Cons.prems obtain k where k: "findIndex P xs = Some k" "i = Suc k" by auto
    from Cons.IH [OF k(1)] False k(2) show ?thesis
      by (auto simp: nth_Cons split: nat.splits)
  qed
qed

lemma findIndex_None: "findIndex P xs = None \<longleftrightarrow> (\<forall>x\<in>set xs. \<not> P x)"
  by (induction xs) auto

lemma filter_update_le:
  "\<not> P t \<Longrightarrow> length (filter P (xs[i := t])) \<le> length (filter P xs)"
proof (induction xs arbitrary: i)
  case Nil
  then show ?case by simp
next
  case (Cons x xs)
  then show ?case by (cases i) (auto intro: le_SucI)
qed

text \<open>The question-generation step appends at most one turn, with an empty answer, and only
  below the cap.\<close>

lemma generate_next_turn_history:
  "conversationHistory (generate_next_turn cfg env c) = conversationHistory c
   \<or> (length (filter is_answered (conversationHistory c)) < maxQuestions cfg
       \<and> (\<exists>t. conversationHistory (generate_next_turn cfg env c) = conversationHistory c @ [t]
                \<and> answer t = []))"
  by (simp add: generate_next_turn_def Let_def)

text \<open>What \<open>askQuestions\<close> does to the stored document.\<close>

lemma askQuestions_store:
  assumes "complaints db cid = Some d"
  shows "\<exists>d'. complaints (snd (askQuestions cfg env db ctx cid)) = (complaints db)(cid \<mapsto> d')
           \<and> (stored_history d' = stored_history d
                \<or> (filter is_pending (stored_history d) = []
                    \<and> length (stored_history d) < maxQuestions cfg
                    \<and> (\<exists>t. stored_history d' = stored_history d @ [t] \<and> answer t = [])))"
proof -
  obtain u db2 where l: "load_user_details (db\<lparr>opCount := Suc (opCount db)\<rparr>) d = (u, db2)"
    by (cases "load_user_details (db\<lparr>opCount := Suc (opCount db)\<rparr>) d") auto
  have c2: "complaints db2 = complaints db"
    using load_user_details_complaints [of "db\<lparr>opCount := Suc (opCount db)\<rparr>" d] l by simp
  have triv: "(complaints db)(cid \<mapsto> d) = complaints db"
    using assms by (simp add: map_upd_triv)
  define c1 where "c1 = prepared_context env ctx d u"
  have h1: "conversationHistory c1 = stored_history d"
    by (simp add: c1_def)
  show ?thesis
  proof (cases "failing db (opCount db)")
    case True
    then show ?thesis using triv
      by (intro exI [of _ d]) (simp add: askQuestions_def fs_get_def)
  next
    case False
    show ?thesis
    proof (cases "filter is_pending (stored_history d) = []")
      case pend: False
      then show ?thesis using False assms l c2 triv
        by (intro exI [of _ d]) (simp add: askQuestions_def fs_get_def Let_def)
    next
      case nopend: True
      have ans: "filter is_answered (stored_history d) = stored_history d"
        using nopend by (rule no_pending_all_answered)
      show ?thesis
      proof (cases "failing db2 (opCount db2)")
        case True
        then show ?thesis using False assms l c2 triv nopend
          by (intro exI [of _ d]) (simp add: askQuestions_def fs_get_def Let_def fs_update_def)
      next
        case f2: False
        have upd: "complaints (snd (askQuestions cfg env db ctx cid)) =
            (complaints db)(cid \<mapsto> d\<lparr>doc_conversationHistory := Some (conversationHistory (generate_next_turn cfg env c1)),
                 doc_extractedFields := Some (extractedFields (generate_next_turn cfg env c1)),
                 doc_finalConfidence := Some (calculateOverallConfidence (confidence ctx)
                      (filter is_answered (conversationHistory (generate_next_turn cfg env c1)))),
                 doc_questionFlowCompleted := Some (\<not> list_ex is_pending (conversationHistory (generate_next_turn cfg env c1))),
                 doc_questionsAsked := Some (length (conversationHistory (generate_next_turn cfg env c1))),
                 doc_questionsAnswered := Some (length (stored_history d))\<rparr>)"
          using f2 False assms l c2 nopend ans
          by (simp add: askQuestions_def fs_get_def Let_def fs_update_def c1_def)
        from generate_next_turn_history [of cfg env c1]
        show ?thesis unfolding upd using h1 ans nopend
          by (auto simp: stored_history_def)
      qed
    qed
  qed
qed

lemma askQuestions_result:
  assumes "complaints db cid = Some d" "fst (askQuestions cfg env db ctx cid) = Inr c"
  shows "\<exists>d'. complaints (snd (askQuestions cfg env db ctx cid)) cid = Some d'
           \<and> stored_history d' = conversationHistory c"
proof -
  obtain u db2 where l: "load_user_details (db\<lparr>opCount := Suc (opCount db)\<rparr>) d = (u, db2)"
    by (cases "load_user_details (db\<lparr>opCount := Suc (opCount db)\<rparr>) d") auto
  have c2: "complaints db2 = complaints db"
    using load_user_details_complaints [of "db\<lparr>opCount := Suc (opCount db)\<rparr>" d] l by simp
  from assms l c2 show ?thesis
    by (auto simp: askQuestions_def fs_get_def Let_def fs_update_def stored_history_def
          split: if_splits)
qed

lemma askQuestions_result_history:
  assumes "complaints db cid = Some d"
  shows "\<exists>d'. complaints (snd (askQuestions cfg env db ctx cid)) cid = Some d'
           \<and> (\<forall>c. fst (askQuestions cfg env db ctx cid) = Inr c \<longrightarrow> conversationHistory c = stored_history d')
           \<and> (stored_history d' = stored_history d
                \<or> (filter is_pending (stored_history d) = []
                    \<and> length (stored_history d) < maxQuestions cfg
                    \<and> (\<exists>t. stored_history d' = stored_history d @ [t] \<and> answer t = [])))"
proof -
  from askQuestions_store [OF assms, of cfg env ctx] obtain d' where
    d': "complaints (snd (askQuestions cfg env db ctx cid)) = (complaints db)(cid \<mapsto> d')"
      "stored_history d' = stored_history d
                \<or> (filter is_pending (stored_history d) = []
                    \<and> length (stored_history d) < maxQuestions cfg
                    \<and> (\<exists>t. stored_history d' = stored_history d @ [t] \<and> answer t = []))"
    by blast
  have "\<forall>c. fst (askQuestions cfg env db ctx cid) = Inr c \<longrightarrow> conversationHistory c = stored_history d'"
  proof (intro allI impI)
    fix c assume "fst (askQuestions cfg env db ctx cid) = Inr c"
    from askQuestions_result [OF assms this] d'(1) show "conversationHistory c = stored_history d'"
      by auto
  qed
  with d' show ?thesis by auto
qed

text \<open>\<open>processAnswer\<close> when the document is read, the turn is found and the write goes
  through.\<close>

lemma processAnswer_success:
  fixes env db cid q a d i
  defines "info \<equiv> extractInformationFromAnswer env (tempContext d i)
                         (question (stored_history d ! i)) a"
  defines "h' \<equiv> (stored_history d)[i := (stored_history d ! i)
             \<lparr>answer := a, timestamp := now env, extractedInfo := info,
              confidenceDelta := (if length info > 0 then js_literal (2 / 10)
                                  else js_literal (1 / 10))\<rparr>]"
  assumes "\<not> failing db (opCount db)" "\<not> failing db (Suc (opCount db))"
    and "complaints db cid = Some d"
    and "findIndex (\<lambda>turn. turn_id turn = q) (stored_history d) = Some i"
  shows "processAnswer env db cid q a =
           (Inr ((tempContext d i)\<lparr>conversationHistory := h',
                    extractedFields := spread (stored_fields d) info,
                    finalConfidence := calculateOverallConfidence (stored_confidence d)
                                         (filter is_answered h')\<rparr>),
            db\<lparr>complaints := (complaints db)(cid \<mapsto>
                  d\<lparr>doc_conversationHistory := Some h',
                    doc_extractedFields := Some (spread (stored_fields d) info),
                    doc_finalConfidence := Some (calculateOverallConfidence (stored_confidence d)
                                                  (filter is_answered h')),
                    doc_questionFlowCompleted := Some (\<not> list_ex is_pending h'),
                    doc_questionsAnswered := Some (length (filter is_answered h'))\<rparr>),
                opCount := Suc (Suc (opCount db))\<rparr>)"
  using assms(3-6)
  by (simp add: processAnswer_def processAnswer_with_def fs_get_def Let_def fs_update_def h'_def info_def)

lemma processAnswer_write_failure:
  assumes "\<not> failing db (opCount db)" "failing db (Suc (opCount db))"
    and "complaints db cid = Some d"
    and "findIndex (\<lambda>turn. turn_id turn = q) (stored_history d) = Some i"
  shows "fst (processAnswer env db cid q a) = Inl (Error ''Firestore request failed'')"
  using assms by (simp add: processAnswer_def processAnswer_with_def fs_get_def Let_def fs_update_def)

lemma processAnswer_store:
  assumes "complaints db cid = Some d"
  shows "\<exists>d'. complaints (snd (processAnswer env db cid q a)) = (complaints db)(cid \<mapsto> d')
           \<and> (\<forall>c. fst (processAnswer env db cid q a) = Inr c \<longrightarrow> conversationHistory c = stored_history d')
           \<and> (stored_history d' = stored_history d
                \<or> (\<exists>i t. i < length (stored_history d) \<and> stored_history d' = (stored_history d)[i := t]
                      \<and> answer t = a))"
proof -
  have triv: "(complaints db)(cid \<mapsto> d) = complaints db"
    using assms by (simp add: map_upd_triv)
  show ?thesis
  proof (cases "failing db (opCount db)")
    case True
    then show ?thesis using triv
      by (intro exI [of _ d]) (simp add: processAnswer_def processAnswer_with_def fs_get_def)
  next
    case False
    show ?thesis
    proof (cases "findIndex (\<lambda>turn. turn_id turn = q) (stored_history d)")
      case None
      then show ?thesis using False assms triv
        by (intro exI [of _ d]) (simp add: processAnswer_def processAnswer_with_def fs_get_def Let_def)
    next
      case (Some i)
      then have i: "i < length (stored_history d)" using findIndex_Some by fastforce
      show ?thesis
      proof (cases "failing db (Suc (opCount db))")
        case True
        then show ?thesis using False assms triv Some
          by (intro exI [of _ d]) (simp add: processAnswer_def processAnswer_with_def fs_get_def Let_def fs_update_def)
      next
        case f2: False
        define info where "info = extractInformationFromAnswer env (tempContext d i)
                                    (question (stored_history d ! i)) a"
        define T where "T = (stored_history d ! i)
             \<lparr>answer := a, timestamp := now env, extractedInfo := info,
              confidenceDelta := (if length info > 0 then js_literal (2 / 10)
                                  else js_literal (1 / 10))\<rparr>"
        define D where "D = d\<lparr>doc_conversationHistory := Some ((stored_history d)[i := T]),
                    doc_extractedFields := Some (spread (stored_fields d) info),
                    doc_finalConfidence := Some (calculateOverallConfidence (stored_confidence d)
                                                  (filter is_answered ((stored_history d)[i := T]))),
                    doc_questionFlowCompleted := Some (\<not> list_ex is_pending ((stored_history d)[i := T])),
                    doc_questionsAnswered := Some (length (filter is_answered ((stored_history d)[i := T])))\<rparr>"
        have aT: "answer T = a"
          by (simp add: T_def)
        have sD: "stored_history D = (stored_history d)[i := T]"
          by (simp add: D_def stored_history_def)
        have r: "processAnswer env db cid q a =
             (Inr ((tempContext d i)\<lparr>conversationHistory := (stored_history d)[i := T],
                    extractedFields := spread (stored_fields d) info,
                    finalConfidence := calculateOverallConfidence (stored_confidence d)
                                         (filter is_answered ((stored_history d)[i := T]))\<rparr>),
              db\<lparr>complaints := (complaints db)(cid \<mapsto> D), opCount := Suc (Suc (opCount db))\<rparr>)"
          unfolding processAnswer_success [OF False f2 assms Some, of env a]
          by (simp add: T_def info_def D_def)
        have "\<exists>i t. i < length (stored_history d) \<and> stored_history D = (stored_history d)[i := t]
                \<and> answer t = a"
          using i sD aT by blast
        then show ?thesis
          unfolding r using sD
          by (intro exI [of _ D]) simp
      qed
    qed
  qed
qed

lemma perform_length:
  assumes "complaints db cid = Some d" "length (stored_history d) \<le> maxQuestions cfg"
  shows "\<exists>d'. complaints (snd (perform cfg cid db op)) cid = Some d'
           \<and> length (stored_history d') \<le> maxQuestions cfg
           \<and> (\<forall>c. fst (perform cfg cid db op) = Inr c \<longrightarrow> conversationHistory c = stored_history d')"
proof (cases op)
  case (AskQuestions env ctx)
  from askQuestions_result_history [OF assms(1), of cfg env ctx] assms(2) show ?thesis
    unfolding AskQuestions perform_def by (auto simp del: length_filter_le)
next
  case (ProcessAnswer env q a)
  from processAnswer_store [OF assms(1), of env q a] assms(2) show ?thesis
    unfolding ProcessAnswer perform_def by auto
qed

lemma perform_pending:
  assumes "complaints db cid = Some d" "length (filter is_pending (stored_history d)) \<le> 1"
    and "nonblank_answers [op]"
  shows "\<exists>d'. complaints (snd (perform cfg cid db op)) cid = Some d'
           \<and> length (filter is_pending (stored_history d')) \<le> 1"
proof (cases op)
  case (AskQuestions env ctx)
  from askQuestions_result_history [OF assms(1), of cfg env ctx] assms(2) show ?thesis
    unfolding AskQuestions perform_def by (auto simp: is_pending_def)
next
  case (ProcessAnswer env q a)
  with assms(3) have nb: "js_trim a \<noteq> []" by (simp add: nonblank_answers_def)
  from processAnswer_store [OF assms(1), of env q a] obtain d' where
    d': "complaints (snd (processAnswer env db cid q a)) = (complaints db)(cid \<mapsto> d')"
        "stored_history d' = stored_history d
                \<or> (\<exists>i t. i < length (stored_history d) \<and> stored_history d' = (stored_history d)[i := t]
                      \<and> answer t = a)"
    by blast
  from d'(2) have "length (filter is_pending (stored_history d')) \<le> length (filter is_pending (stored_history d))"
  proof
    assume "stored_history d' = stored_history d" then show ?thesis by simp
  next
    assume "\<exists>i t. i < length (stored_history d) \<and> stored_history d' = (stored_history d)[i := t] \<and> answer t = a"
    then obtain i t where t: "stored_history d' = (stored_history d)[i := t]" "answer t = a" by blast
    with nb have "\<not> is_pending t" by (auto simp: is_pending_def js_trim_def)
    with t(1) show ?thesis by (simp add: filter_update_le)
  qed
  with assms(2) d'(1) show ?thesis unfolding ProcessAnswer perform_def by auto
qed

lemma run_length:
  "complaints db cid = Some d \<Longrightarrow> length (stored_history d) \<le> maxQuestions cfg \<Longrightarrow>
   \<exists>d'. complaints (run_operations cfg cid db ops) cid = Some d'
        \<and> length (stored_history d') \<le> maxQuestions cfg"
proof (induction ops arbitrary: db d)
  case Nil
  then show ?case by (simp add: run_operations_def)
next
  case (Cons op ops)
  from perform_length [OF Cons.prems, of op] obtain d1 where
    d1: "complaints (snd (perform cfg cid db op)) cid = Some d1" "length (stored_history d1) \<le> maxQuestions cfg"
    by blast
  from Cons.IH [OF d1] show ?case by (simp add: run_operations_def)
qed

lemma run_pending:
  "complaints db cid = Some d \<Longrightarrow> length (filter is_pending (stored_history d)) \<le> 1 \<Longrightarrow>
   nonblank_answers ops \<Longrightarrow>
   \<exists>d'. complaints (run_operations cfg cid db ops) cid = Some d'
        \<and> length (filter is_pending (stored_history d')) \<le> 1"
proof (induction ops arbitrary: db d)
  case Nil
  then show ?case by (simp add: run_operations_def)
next
  case (Cons op ops)
  from Cons.prems(3) have nb: "nonblank_answers [op]" "nonblank_answers ops"
    by (simp_all add: nonblank_answers_def)
  from perform_pending [OF Cons.prems(1,2) nb(1), of cfg] obtain d1 where
    d1: "complaints (snd (perform cfg cid db op)) cid = Some d1"
        "length (filter is_pending (stored_history d1)) \<le> 1"
    by blast
  from Cons.IH [OF d1 nb(2)] show ?case by (simp add: run_operations_def)
qed

text \<open>
  C1: in a conversation that starts with at most maxQuestions turns (a new complaint has
  none), after any sequence of askQuestions and processAnswer operations the stored history
  holds at most maxQuestions answered turns (turns whose answer is neither empty nor blank;
  also at most maxQuestions turns whose answer is not the empty string), and so does every
  context an operation returns; askQuestions appends a turn only when the count of answered
  turns is strictly below maxQuestions.
\<close>

theorem answered_turns_capped:
  assumes "complaints db complaintId = Some d"
    and "length (stored_history d) \<le> maxQuestions config"
  shows "(\<exists>d'. complaints (run_operations config complaintId db ops) complaintId = Some d'
            \<and> length (filter is_answered (stored_history d')) \<le> maxQuestions config
            \<and> length (filter (\<lambda>turn. answer turn \<noteq> []) (stored_history d')) \<le> maxQuestions config)
         \<and> (\<forall>c. fst (perform config complaintId (run_operations config complaintId db ops) op) = Inr c
               \<longrightarrow> length (filter is_answered (conversationHistory c)) \<le> maxQuestions config
                 \<and> length (filter (\<lambda>turn. answer turn \<noteq> []) (conversationHistory c))
                     \<le> maxQuestions config)
         \<and> (\<forall>c. fst (askQuestions config env db context complaintId) = Inr c
                  \<and> length (stored_history d) < length (conversationHistory c)
               \<longrightarrow> length (filter is_answered (stored_history d)) < maxQuestions config
                 \<and> length (filter (\<lambda>turn. answer turn \<noteq> []) (stored_history d))
                     < maxQuestions config)"
proof (intro conjI allI impI)
  from run_length [OF assms, of ops] obtain d' where
    d': "complaints (run_operations config complaintId db ops) complaintId = Some d'"
        "length (stored_history d') \<le> maxQuestions config"
    by blast
  have "length (filter P (stored_history d')) \<le> maxQuestions config" for P
    using d'(2) length_filter_le [of P "stored_history d'"] by (rule_tac le_trans)
  with d'(1) show "\<exists>d'. complaints (run_operations config complaintId db ops) complaintId = Some d'
            \<and> length (filter is_answered (stored_history d')) \<le> maxQuestions config
            \<and> length (filter (\<lambda>turn. answer turn \<noteq> []) (stored_history d')) \<le> maxQuestions config"
    by blast
  fix c
  assume r: "fst (perform config complaintId (run_operations config complaintId db ops) op) = Inr c"
  from perform_length [OF d', of op] r obtain d2 where
    d2: "length (stored_history d2) \<le> maxQuestions config" "conversationHistory c = stored_history d2"
    by blast
  have b: "length (filter P (conversationHistory c)) \<le> maxQuestions config" for P
    using le_trans [OF length_filter_le [of P "stored_history d2"] d2(1)] d2(2) by simp
  show "length (filter is_answered (conversationHistory c)) \<le> maxQuestions config"
    by (rule b)
  show "length (filter (\<lambda>turn. answer turn \<noteq> []) (conversationHistory c)) \<le> maxQuestions config"
    by (rule b)
next
  fix c
  assume a: "fst (askQuestions config env db context complaintId) = Inr c
        \<and> length (stored_history d) < length (conversationHistory c)"
  from askQuestions_result_history [OF assms(1), of config env "context"] a
  have n: "filter is_pending (stored_history d) = [] \<and> length (stored_history d) < maxQuestions config"
    by auto
  then show "length (filter is_answered (stored_history d)) < maxQuestions config"
    by (simp add: no_pending_all_answered)
  from n have "length (stored_history d) < maxQuestions config"
    by simp
  then show "length (filter (\<lambda>turn. answer turn \<noteq> []) (stored_history d)) < maxQuestions config"
    by (rule le_less_trans [OF length_filter_le])
qed

theorem answered_turns_capped_witness:
  "\<exists>d'. complaints (run_operations followupQuestionsConfig ''c1'' sample_firestore
             (reopening_run ''I do not know'')) ''c1'' = Some d'
        \<and> length (filter is_answered (stored_history d')) \<le> maxQuestions followupQuestionsConfig
        \<and> length (filter (\<lambda>turn. answer turn \<noteq> []) (stored_history d'))
            \<le> maxQuestions followupQuestionsConfig"
proof -
  let ?d = "empty_doc\<lparr>doc_rawText := Some ''My card was charged twice'', doc_retryCount := Some 0\<rparr>"
  have h1: "complaints sample_firestore ''c1'' = Some ?d"
    by (simp add: sample_firestore_def)
  have h2: "length (stored_history ?d) \<le> maxQuestions followupQuestionsConfig"
    by (simp add: stored_history_def empty_doc_def)
  from answered_turns_capped [OF h1 h2, of "reopening_run ''I do not know''"]
  show ?thesis by blast
qed

text \<open>Steps of a dialogue in a store that answers every request, for a complaint without a
  user, in the environment that asks the template questions.\<close>

lemma stored_answers_pairs:
  "complaints db cid = Some d \<Longrightarrow> stored_answers db cid = qa_pairs (stored_history d)"
  by (simp add: stored_answers_def)

lemma pending_count_answers:
  "pending_count db cid =
     length (filter (\<lambda>p. snd p = [] \<or> js_trim (snd p) = []) (stored_answers db cid))"
  by (simp add: pending_count_def stored_answers_def qa_pairs_def filter_map comp_def
        is_pending_def [abs_def] split: option.splits)

lemma findIndex_pairs:
  "findIndex (\<lambda>turn. turn_id turn = q) h = findIndex (\<lambda>p. fst p = q) (qa_pairs h)"
  by (induction h) (simp_all add: qa_pairs_def)

lemma pending_pairs:
  "filter is_pending h = [] \<longleftrightarrow> list_all (\<lambda>p. snd p \<noteq> [] \<and> js_trim (snd p) \<noteq> []) (qa_pairs h)"
  by (induction h) (auto simp: qa_pairs_def is_pending_def)

lemma ask_step:
  assumes ok: "\<not> failing db (opCount db)" "\<not> failing db (Suc (opCount db))"
    and d: "complaints db cid = Some d" "doc_userId d = None"
    and np: "filter is_pending (stored_history d) = []"
  shows "\<exists>d'. complaints (snd (askQuestions cfg env db ctx cid)) cid = Some d' \<and> doc_userId d' = None
           \<and> stored_history d' = conversationHistory (generate_next_turn cfg env (prepared_context env ctx d None))"
    and "failing (snd (askQuestions cfg env db ctx cid)) = failing db"
  using assms
  by (simp_all add: askQuestions_def fs_get_def Let_def fs_update_def load_user_details_none
        stored_history_def)

lemma fallback_question_nonblank:
  "getFallbackQuestion c l \<noteq> [] \<and> js_trim (getFallbackQuestion c l) \<noteq> []"
  by (simp add: getFallbackQuestion_def Let_def js_trim_def is_whitespace_def whitespace_chars_def)

lemma fallback_env_next_turn:
  assumes "filter is_pending (conversationHistory c) = []" "length (conversationHistory c) < 4"
  shows "\<exists>q. conversationHistory (generate_next_turn followupQuestionsConfig (fallback_env\<lparr>uuidv4 := u\<rparr>) c)
         = conversationHistory c @
           [\<lparr>turn_id = u, question = q, answer = [], timestamp = 1000, extractedInfo = [],
             confidenceDelta = js_literal 0\<rparr>]"
proof -
  have ans: "filter is_answered (conversationHistory c) = conversationHistory c"
    using assms(1) by (rule no_pending_all_answered)
  have cont: "toUpperCase (js_trim ''CONTINUE'') = ''CONTINUE''"
    by (simp add: toUpperCase_def js_trim_def is_whitespace_def whitespace_chars_def
          toUpperChar_def lower_letters_def upper_letters_def)
  have should: "shouldAskMoreQuestions followupQuestionsConfig (fallback_env\<lparr>uuidv4 := u\<rparr>) c"
    using assms(2)
    by (simp add: shouldAskMoreQuestions_def followupQuestionsConfig_def llmShouldContinueAsking_def
          generateFollowupQuestions_def fallback_env_def truthy_string_def Let_def cont)
  have q: "generateFollowupQuestion followupQuestionsConfig (fallback_env\<lparr>uuidv4 := u\<rparr>) c
           = getFallbackQuestion c (int 4 - int (length (conversationHistory c)) = 1)"
    using assms(2)
    by (simp add: generateFollowupQuestion_def followupQuestionsConfig_def Let_def
          llmGenerateIntelligentQuestion_def generateFollowupQuestions_def fallback_env_def)
  have m: "maxQuestions followupQuestionsConfig = 4"
    by (simp add: followupQuestionsConfig_def)
  have n: "now (fallback_env\<lparr>uuidv4 := u\<rparr>) = 1000"
    by (simp add: fallback_env_def)
  show ?thesis
    using assms(2) should fallback_question_nonblank [of c "int 4 - int (length (conversationHistory c)) = 1"]
    by (simp add: generate_next_turn_def Let_def ans q m n)
qed

lemma ask_pairs:
  assumes ok: "failing db = (\<lambda>n. False)"
    and d: "complaints db cid = Some d" "doc_userId d = None"
    and qa: "list_all (\<lambda>p. snd p \<noteq> [] \<and> js_trim (snd p) \<noteq> []) (qa_pairs (stored_history d))"
      "length (stored_history d) < 4"
  shows "failing (snd (askQuestions followupQuestionsConfig (fallback_env\<lparr>uuidv4 := u\<rparr>) db ctx cid))
           = (\<lambda>n. False)
         \<and> (\<exists>d'. complaints (snd (askQuestions followupQuestionsConfig (fallback_env\<lparr>uuidv4 := u\<rparr>) db ctx cid)) cid
                  = Some d'
               \<and> doc_userId d' = None
               \<and> qa_pairs (stored_history d') = qa_pairs (stored_history d) @ [(u, [])])"
proof -
  let ?env = "fallback_env\<lparr>uuidv4 := u\<rparr>"
  let ?c = "prepared_context ?env ctx d None"
  have np: "filter is_pending (stored_history d) = []"
    using qa(1) by (simp add: pending_pairs)
  from fallback_env_next_turn [of ?c u] np qa(2) obtain q where
    q: "conversationHistory (generate_next_turn followupQuestionsConfig ?env ?c)
         = stored_history d @ [\<lparr>turn_id = u, question = q, answer = [], timestamp = 1000,
                                 extractedInfo = [], confidenceDelta = js_literal 0\<rparr>]"
    by auto
  have f: "\<not> failing db (opCount db)" "\<not> failing db (Suc (opCount db))"
    using ok by simp_all
  from ask_step(1) [OF f d np, of followupQuestionsConfig ?env ctx] q
    ask_step(2) [OF f d np, of followupQuestionsConfig ?env ctx] ok
  show ?thesis by (auto simp: qa_pairs_def)
qed

lemma answer_pairs:
  assumes ok: "failing db = (\<lambda>n. False)"
    and d: "complaints db cid = Some d" "doc_userId d = None"
    and i: "findIndex (\<lambda>p. fst p = q) (qa_pairs (stored_history d)) = Some i"
  shows "failing (snd (processAnswer env db cid q a)) = (\<lambda>n. False)
         \<and> (\<exists>d'. complaints (snd (processAnswer env db cid q a)) cid = Some d'
               \<and> doc_userId d' = None
               \<and> qa_pairs (stored_history d') = (qa_pairs (stored_history d))[i := (q, a)])"
proof -
  have f: "\<not> failing db (opCount db)" "\<not> failing db (Suc (opCount db))"
    using ok by simp_all
  have i': "findIndex (\<lambda>turn. turn_id turn = q) (stored_history d) = Some i"
    using i by (simp add: findIndex_pairs)
  from findIndex_Some [OF i'] have "i < length (stored_history d)" "turn_id (stored_history d ! i) = q"
    by auto
  then show ?thesis
    unfolding processAnswer_success [OF f d(1) i', of env a] using ok d(2)
    by (simp add: qa_pairs_def stored_history_def map_update)
qed

lemma reopening_run_pairs:
  "\<exists>d. complaints (run_operations followupQuestionsConfig ''c1'' sample_firestore (reopening_run blank)) ''c1''
          = Some d
       \<and> qa_pairs (stored_history d) = [(''q1'', blank), (''q2'', [])]"
proof -
  let ?cfg = followupQuestionsConfig
  let ?d0 = "empty_doc\<lparr>doc_rawText := Some ''My card was charged twice'', doc_retryCount := Some 0\<rparr>"
  let ?db1 = "snd (askQuestions ?cfg fallback_env sample_firestore sample_seed ''c1'')"
  let ?db2 = "snd (processAnswer fallback_env ?db1 ''c1'' ''q1'' ''Yesterday'')"
  let ?db3 = "snd (askQuestions ?cfg (fallback_env\<lparr>uuidv4 := ''q2''\<rparr>) ?db2 sample_seed ''c1'')"
  let ?db4 = "snd (processAnswer fallback_env ?db3 ''c1'' ''q1'' blank)"
  have e: "fallback_env\<lparr>uuidv4 := ''q1''\<rparr> = fallback_env"
    by (simp add: fallback_env_def)
  have ok0: "failing sample_firestore = (\<lambda>n. False)"
    and d0: "complaints sample_firestore ''c1'' = Some ?d0" "doc_userId ?d0 = None"
    and h0: "stored_history ?d0 = []"
    by (simp_all add: sample_firestore_def empty_doc_def stored_history_def)
  from ask_pairs [OF ok0 d0, of "''q1''" sample_seed] h0 obtain d1 where
    ok1: "failing ?db1 = (\<lambda>n. False)" and d1: "complaints ?db1 ''c1'' = Some d1" "doc_userId d1 = None"
    and p1: "qa_pairs (stored_history d1) = [(''q1'', [])]"
    by (auto simp: e qa_pairs_def)
  from answer_pairs [OF ok1 d1, of "''q1''" 0 fallback_env "''Yesterday''"] p1 obtain d2 where
    ok2: "failing ?db2 = (\<lambda>n. False)" and d2: "complaints ?db2 ''c1'' = Some d2" "doc_userId d2 = None"
    and p2: "qa_pairs (stored_history d2) = [(''q1'', ''Yesterday'')]"
    by auto
  have "length (stored_history d2) = length (qa_pairs (stored_history d2))"
    by (simp add: qa_pairs_def)
  then have l2: "length (stored_history d2) < 4"
    by (simp add: p2)
  have nb2: "list_all (\<lambda>p. snd p \<noteq> [] \<and> js_trim (snd p) \<noteq> []) (qa_pairs (stored_history d2))"
    by (simp add: p2 js_trim_def is_whitespace_def whitespace_chars_def)
  from ask_pairs [OF ok2 d2 nb2 l2, of "''q2''" sample_seed] p2 obtain d3 where
    ok3: "failing ?db3 = (\<lambda>n. False)" and d3: "complaints ?db3 ''c1'' = Some d3" "doc_userId d3 = None"
    and p3: "qa_pairs (stored_history d3) = [(''q1'', ''Yesterday''), (''q2'', [])]"
    by auto
  from answer_pairs [OF ok3 d3, of "''q1''" 0 fallback_env blank] p3 obtain d4 where
    "complaints ?db4 ''c1'' = Some d4" "qa_pairs (stored_history d4) = [(''q1'', blank), (''q2'', [])]"
    by auto
  then show ?thesis
    by (simp add: run_operations_def reopening_run_def perform_def)
qed

text \<open>
  C2, as stated, fails in its last part: on a new complaint, after a question is asked and
  answered and a second one is asked, answering the first question again with an empty
  text (or with a single space) leaves two pending turns in the stored history.
\<close>

theorem blank_answer_reopens_turn:
  "stored_answers (run_operations followupQuestionsConfig ''c1'' sample_firestore (reopening_run []))
       ''c1'' = [(''q1'', []), (''q2'', [])]
   \<and> pending_count (run_operations followupQuestionsConfig ''c1'' sample_firestore (reopening_run []))
       ''c1'' = 2
   \<and> stored_answers (run_operations followupQuestionsConfig ''c1'' sample_firestore (reopening_run '' ''))
       ''c1'' = [(''q1'', '' ''), (''q2'', [])]
   \<and> pending_count (run_operations followupQuestionsConfig ''c1'' sample_firestore (reopening_run '' ''))
       ''c1'' = 2"
proof -
  have a: "stored_answers (run_operations followupQuestionsConfig ''c1'' sample_firestore
             (reopening_run blank)) ''c1'' = [(''q1'', blank), (''q2'', [])]" for blank
    using reopening_run_pairs [of blank] by (auto simp: stored_answers_def)
  show ?thesis
    by (simp add: a pending_count_answers js_trim_def is_whitespace_def whitespace_chars_def)
qed

text \<open>
  C2, amended: when the complaint is read and its history contains at least one turn with an
  empty answer, askQuestions returns the context with the stored history as it is, only the
  confidence recomputed, and writes nothing; consequently askQuestions never adds a second
  pending turn, and at most one pending turn exists after any sequence of askQuestions and
  processAnswer operations in which every submitted answer is non-blank, from a history
  with at most one pending turn.
\<close>

theorem askQuestions_keeps_pending_turn:
  assumes "complaints db complaintId = Some d"
  shows "(\<not> failing db (opCount db) \<and> list_ex (\<lambda>turn. answer turn = []) (stored_history d) \<longrightarrow>
            (\<exists>c. fst (askQuestions config env db context complaintId) = Inr c
                 \<and> conversationHistory c = stored_history d
                 \<and> finalConfidence c =
                     calculateOverallConfidence (confidence context) (stored_history d))
            \<and> complaints (snd (askQuestions config env db context complaintId)) = complaints db)
         \<and> (length (filter is_pending (stored_history d)) \<le> 1 \<and> nonblank_answers ops \<longrightarrow>
            (\<exists>d'. complaints (run_operations config complaintId db ops) complaintId = Some d'
                  \<and> length (filter is_pending (stored_history d')) \<le> 1))"
proof (intro conjI impI)
  assume a: "\<not> failing db (opCount db) \<and> list_ex (\<lambda>turn. answer turn = []) (stored_history d)"
  obtain u db2 where l: "load_user_details (db\<lparr>opCount := Suc (opCount db)\<rparr>) d = (u, db2)"
    by (cases "load_user_details (db\<lparr>opCount := Suc (opCount db)\<rparr>) d") auto
  have c2: "complaints db2 = complaints db"
    using load_user_details_complaints [of "db\<lparr>opCount := Suc (opCount db)\<rparr>" d] l by simp
  from a have "filter is_pending (stored_history d) \<noteq> []"
    by (auto simp: list_ex_iff filter_empty_conv is_pending_def)
  with a assms l c2
  show "\<exists>c. fst (askQuestions config env db context complaintId) = Inr c
                 \<and> conversationHistory c = stored_history d
                 \<and> finalConfidence c =
                     calculateOverallConfidence (confidence context) (stored_history d)"
    and "complaints (snd (askQuestions config env db context complaintId)) = complaints db"
    by (simp_all add: askQuestions_def fs_get_def Let_def)
next
  assume "length (filter is_pending (stored_history d)) \<le> 1 \<and> nonblank_answers ops"
  with run_pending [OF assms, of ops config]
  show "\<exists>d'. complaints (run_operations config complaintId db ops) complaintId = Some d'
                  \<and> length (filter is_pending (stored_history d')) \<le> 1"
    by blast
qed

theorem askQuestions_keeps_pending_turn_witness:
  "(\<exists>c. fst (askQuestions followupQuestionsConfig sample_env mid_dialogue_store sample_seed ''c1'') = Inr c
        \<and> conversationHistory c = stored_history mid_dialogue_doc
        \<and> finalConfidence c =
            calculateOverallConfidence (confidence sample_seed) (stored_history mid_dialogue_doc))
   \<and> complaints (snd (askQuestions followupQuestionsConfig sample_env mid_dialogue_store sample_seed ''c1''))
       = complaints mid_dialogue_store
   \<and> (\<exists>d'. complaints (run_operations followupQuestionsConfig ''c1'' mid_dialogue_store
                [AskQuestions sample_env sample_seed, ProcessAnswer sample_env ''q2'' ''A refund'',
                 AskQuestions sample_env sample_seed]) ''c1'' = Some d'
          \<and> length (filter is_pending (stored_history d')) \<le> 1)"
proof -
  have h: "complaints mid_dialogue_store ''c1'' = Some mid_dialogue_doc"
    by (simp add: mid_dialogue_store_def)
  have p: "\<not> failing mid_dialogue_store (opCount mid_dialogue_store)
           \<and> list_ex (\<lambda>turn. answer turn = []) (stored_history mid_dialogue_doc)"
    by (simp add: mid_dialogue_store_def mid_dialogue_doc_def stored_history_def)
  have q: "length (filter is_pending (stored_history mid_dialogue_doc)) \<le> 1
           \<and> nonblank_answers [AskQuestions sample_env sample_seed,
                ProcessAnswer sample_env ''q2'' ''A refund'', AskQuestions sample_env sample_seed]"
    by (simp add: mid_dialogue_doc_def stored_history_def is_pending_def nonblank_answers_def
          js_trim_def is_whitespace_def whitespace_chars_def)
  from askQuestions_keeps_pending_turn [OF h, of followupQuestionsConfig sample_env sample_seed
      "[AskQuestions sample_env sample_seed, ProcessAnswer sample_env ''q2'' ''A refund'',
        AskQuestions sample_env sample_seed]"] p q
  show ?thesis by blast
qed

text \<open>
  C4, as stated, fails in its "only if" part: with the turn \<^verbatim>\<open>q2\<close> present in the stored
  history, processAnswer still throws when the store rejects the write.
\<close>

theorem processAnswer_store_failure:
  "fst (processAnswer sample_env (mid_dialogue_store\<lparr>failing := (\<lambda>n. n = 1)\<rparr>) ''c1'' ''q2'' ''A refund'')
     = Inl (Error ''Firestore request failed'')
   \<and> stored_answers (mid_dialogue_store\<lparr>failing := (\<lambda>n. n = 1)\<rparr>) ''c1''
       = [(''q1'', ''Yesterday''), (''q2'', [])]"
proof -
  have "fst (processAnswer sample_env (mid_dialogue_store\<lparr>failing := (\<lambda>n. n = 1)\<rparr>) ''c1'' ''q2'' ''A refund'')
     = Inl (Error ''Firestore request failed'')"
    by (rule processAnswer_write_failure [where i = 1 and d = mid_dialogue_doc])
       (simp_all add: mid_dialogue_store_def mid_dialogue_doc_def stored_history_def)
  then show ?thesis
    by (simp add: stored_answers_def qa_pairs_def mid_dialogue_store_def mid_dialogue_doc_def
          stored_history_def)
qed

text \<open>
  C4, amended: processAnswer surfaces an error, and returns no context, in each of these
  cases: the read of the complaint document fails; the document does not exist; no turn of
  the stored conversation history has id equal to questionId ("No question found matching
  questionId"); the final write fails, although the turn exists. It returns a context
  exactly when the read and the write succeed and a turn with that id exists. Then the
  returned context contains the first turn with that id with exactly the submitted answer
  text, all other turns as stored, the information that the extraction method of the
  follow-up handler returned, and confidenceDelta 0.2 if that is at least one field and 0.1
  otherwise; and that method, whatever it is, is run on a context whose history is the
  turns strictly before that turn, with the question of the turn and the answer.
\<close>

theorem processAnswer_answers_turn:
  "processAnswer env db complaintId questionId userAnswer =
     processAnswer_with (extractInformationFromAnswer env) (now env) db complaintId questionId userAnswer
   \<and> (failing db (opCount db) \<longrightarrow>
        fst (processAnswer_with handlerExtract newDate db complaintId questionId userAnswer)
          = Inl (Error ''Firestore request failed''))
   \<and> (\<not> failing db (opCount db) \<and> complaints db complaintId = None \<longrightarrow>
        fst (processAnswer_with handlerExtract newDate db complaintId questionId userAnswer)
          = Inl (Error (''Complaint document '' @ complaintId @ '' not found'')))
   \<and> (\<not> failing db (opCount db) \<and> complaints db complaintId = Some d
        \<and> (\<forall>turn\<in>set (stored_history d). turn_id turn \<noteq> questionId) \<longrightarrow>
        fst (processAnswer_with handlerExtract newDate db complaintId questionId userAnswer)
          = Inl (Error (''No question found matching questionId: '' @ questionId)))
   \<and> (\<not> failing db (opCount db) \<and> complaints db complaintId = Some d
        \<and> (\<exists>turn\<in>set (stored_history d). turn_id turn = questionId)
        \<and> failing db (Suc (opCount db)) \<longrightarrow>
        fst (processAnswer_with handlerExtract newDate db complaintId questionId userAnswer)
          = Inl (Error ''Firestore request failed''))
   \<and> (\<not> failing db (opCount db) \<and> complaints db complaintId = Some d
        \<and> findIndex (\<lambda>turn. turn_id turn = questionId) (stored_history d) = Some i
        \<and> \<not> failing db (Suc (opCount db)) \<longrightarrow>
        (\<exists>c. fst (processAnswer_with handlerExtract newDate db complaintId questionId userAnswer) = Inr c
             \<and> length (conversationHistory c) = length (stored_history d)
             \<and> (\<forall>j < length (stored_history d). j \<noteq> i \<longrightarrow>
                   conversationHistory c ! j = stored_history d ! j)
             \<and> i < length (stored_history d)
             \<and> turn_id (stored_history d ! i) = questionId
             \<and> (\<forall>j < i. turn_id (stored_history d ! j) \<noteq> questionId)
             \<and> turn_id (conversationHistory c ! i) = questionId
             \<and> question (conversationHistory c ! i) = question (stored_history d ! i)
             \<and> answer (conversationHistory c ! i) = userAnswer
             \<and> extractedInfo (conversationHistory c ! i)
                 = handlerExtract (tempContext d i) (question (stored_history d ! i)) userAnswer
             \<and> conversationHistory (tempContext d i) = take i (stored_history d)
             \<and> confidenceDelta (conversationHistory c ! i)
                 = (if extractedInfo (conversationHistory c ! i) \<noteq> [] then js_literal (2 / 10)
                    else js_literal (1 / 10))))
   \<and> ((\<exists>c. fst (processAnswer_with handlerExtract newDate db complaintId questionId userAnswer) = Inr c)
        \<longrightarrow> \<not> failing db (opCount db) \<and> \<not> failing db (Suc (opCount db))
          \<and> (\<exists>d'. complaints db complaintId = Some d'
                \<and> (\<exists>turn\<in>set (stored_history d'). turn_id turn = questionId)))"
proof (intro conjI impI)
  show "processAnswer env db complaintId questionId userAnswer =
     processAnswer_with (extractInformationFromAnswer env) (now env) db complaintId questionId userAnswer"
    by (simp add: processAnswer_def)
next
  assume "failing db (opCount db)"
  then show "fst (processAnswer_with handlerExtract newDate db complaintId questionId userAnswer)
          = Inl (Error ''Firestore request failed'')"
    by (simp add: processAnswer_with_def fs_get_def)
next
  assume "\<not> failing db (opCount db) \<and> complaints db complaintId = None"
  then show "fst (processAnswer_with handlerExtract newDate db complaintId questionId userAnswer)
          = Inl (Error (''Complaint document '' @ complaintId @ '' not found''))"
    by (simp add: processAnswer_with_def fs_get_def)
next
  assume a: "\<not> failing db (opCount db) \<and> complaints db complaintId = Some d
        \<and> (\<forall>turn\<in>set (stored_history d). turn_id turn \<noteq> questionId)"
  then have "findIndex (\<lambda>turn. turn_id turn = questionId) (stored_history d) = None"
    by (simp add: findIndex_None)
  with a show "fst (processAnswer_with handlerExtract newDate db complaintId questionId userAnswer)
          = Inl (Error (''No question found matching questionId: '' @ questionId))"
    by (simp add: processAnswer_with_def fs_get_def Let_def)
next
  assume a: "\<not> failing db (opCount db) \<and> complaints db complaintId = Some d
        \<and> (\<exists>turn\<in>set (stored_history d). turn_id turn = questionId)
        \<and> failing db (Suc (opCount db))"
  then obtain i where "findIndex (\<lambda>turn. turn_id turn = questionId) (stored_history d) = Some i"
    using findIndex_None [of "\<lambda>turn. turn_id turn = questionId" "stored_history d"]
    by (cases "findIndex (\<lambda>turn. turn_id turn = questionId) (stored_history d)") auto
  with a show "fst (processAnswer_with handlerExtract newDate db complaintId questionId userAnswer)
          = Inl (Error ''Firestore request failed'')"
    by (simp add: processAnswer_with_def fs_get_def Let_def fs_update_def)
next
  assume a: "\<not> failing db (opCount db) \<and> complaints db complaintId = Some d
        \<and> findIndex (\<lambda>turn. turn_id turn = questionId) (stored_history d) = Some i
        \<and> \<not> failing db (Suc (opCount db))"
  then have i: "findIndex (\<lambda>turn. turn_id turn = questionId) (stored_history d) = Some i"
    by simp
  from findIndex_Some [OF i]
  have b: "i < length (stored_history d)" "turn_id (stored_history d ! i) = questionId"
    "\<forall>j < i. turn_id (stored_history d ! j) \<noteq> questionId"
    by auto
  define info where "info = handlerExtract (tempContext d i) (question (stored_history d ! i)) userAnswer"
  define h' where "h' = (stored_history d)[i := (stored_history d ! i)
             \<lparr>answer := userAnswer, timestamp := newDate, extractedInfo := info,
              confidenceDelta := (if length info > 0 then js_literal (2 / 10)
                                  else js_literal (1 / 10))\<rparr>]"
  have r: "fst (processAnswer_with handlerExtract newDate db complaintId questionId userAnswer) =
             Inr ((tempContext d i)\<lparr>conversationHistory := h',
                    extractedFields := spread (stored_fields d) info,
                    finalConfidence := calculateOverallConfidence (stored_confidence d)
                                         (filter is_answered h')\<rparr>)"
    using a by (simp add: processAnswer_with_def fs_get_def Let_def fs_update_def h'_def info_def)
  show "\<exists>c. fst (processAnswer_with handlerExtract newDate db complaintId questionId userAnswer) = Inr c
             \<and> length (conversationHistory c) = length (stored_history d)
             \<and> (\<forall>j < length (stored_history d). j \<noteq> i \<longrightarrow>
                   conversationHistory c ! j = stored_history d ! j)
             \<and> i < length (stored_history d)
             \<and> turn_id (stored_history d ! i) = questionId
             \<and> (\<forall>j < i. turn_id (stored_history d ! j) \<noteq> questionId)
             \<and> turn_id (conversationHistory c ! i) = questionId
             \<and> question (conversationHistory c ! i) = question (stored_history d ! i)
             \<and> answer (conversationHistory c ! i) = userAnswer
             \<and> extractedInfo (conversationHistory c ! i)
                 = handlerExtract (tempContext d i) (question (stored_history d ! i)) userAnswer
             \<and> conversationHistory (tempContext d i) = take i (stored_history d)
             \<and> confidenceDelta (conversationHistory c ! i)
                 = (if extractedInfo (conversationHistory c ! i) \<noteq> [] then js_literal (2 / 10)
                    else js_literal (1 / 10))"
    unfolding r using b by (simp add: h'_def info_def tempContext_def)
next
  assume r: "\<exists>c. fst (processAnswer_with handlerExtract newDate db complaintId questionId userAnswer) = Inr c"
  show "\<not> failing db (opCount db)"
    using r by (auto simp: processAnswer_with_def fs_get_def)
  then have f: "\<not> failing db (opCount db)" .
  from r f obtain d' where d': "complaints db complaintId = Some d'"
    by (cases "complaints db complaintId") (auto simp: processAnswer_with_def fs_get_def)
  from r f d' obtain i where i: "findIndex (\<lambda>turn. turn_id turn = questionId) (stored_history d') = Some i"
    by (cases "findIndex (\<lambda>turn. turn_id turn = questionId) (stored_history d')")
       (auto simp: processAnswer_with_def fs_get_def Let_def)
  from r f d' i show "\<not> failing db (Suc (opCount db))"
    by (auto simp: processAnswer_with_def fs_get_def Let_def fs_update_def)
  from findIndex_Some [OF i] have "i < length (stored_history d')" "turn_id (stored_history d' ! i) = questionId"
    by auto
  then have "\<exists>turn\<in>set (stored_history d'). turn_id turn = questionId"
    using nth_mem by blast
  with d' show "\<exists>d'. complaints db complaintId = Some d'
                \<and> (\<exists>turn\<in>set (stored_history d'). turn_id turn = questionId)"
    by blast
qed

theorem processAnswer_answers_turn_witness:
  "fst (processAnswer sample_env (mid_dialogue_store\<lparr>failing := (\<lambda>n. n = 0)\<rparr>) ''c1'' ''q2'' ''A refund'')
     = Inl (Error ''Firestore request failed'')
   \<and> fst (processAnswer sample_env mid_dialogue_store ''c9'' ''q2'' ''A refund'')
       = Inl (Error ''Complaint document c9 not found'')
   \<and> fst (processAnswer sample_env mid_dialogue_store ''c1'' ''q9'' ''A refund'')
       = Inl (Error ''No question found matching questionId: q9'')
   \<and> fst (processAnswer sample_env (mid_dialogue_store\<lparr>failing := (\<lambda>n. n = 1)\<rparr>) ''c1'' ''q2'' ''A refund'')
       = Inl (Error ''Firestore request failed'')
   \<and> (\<exists>c. fst (processAnswer sample_env mid_dialogue_store ''c1'' ''q2'' ''A refund'') = Inr c
         \<and> length (conversationHistory c) = 2
         \<and> conversationHistory c ! 0 = stored_history mid_dialogue_doc ! 0
         \<and> turn_id (conversationHistory c ! 1) = ''q2''
         \<and> answer (conversationHistory c ! 1) = ''A refund''
         \<and> extractedInfo (conversationHistory c ! 1) = [(''date'', ''yesterday'')]
         \<and> confidenceDelta (conversationHistory c ! 1) = js_literal (2 / 10))
   \<and> (\<exists>c. fst (processAnswer_with (\<lambda>c q a. qa_pairs (conversationHistory c)) 3000
                mid_dialogue_store ''c1'' ''q2'' ''A refund'') = Inr c
         \<and> extractedInfo (conversationHistory c ! 1) = [(''q1'', ''Yesterday'')]
         \<and> confidenceDelta (conversationHistory c ! 1) = js_literal (2 / 10))
   \<and> (\<exists>c. fst (processAnswer_with (\<lambda>c q a. qa_pairs (conversationHistory c)) 3000
                mid_dialogue_store ''c1'' ''q1'' ''Last week'') = Inr c
         \<and> answer (conversationHistory c ! 0) = ''Last week''
         \<and> extractedInfo (conversationHistory c ! 0) = []
         \<and> confidenceDelta (conversationHistory c ! 0) = js_literal (1 / 10))"
proof -
  let ?x = "extractInformationFromAnswer sample_env"
  let ?seen = "\<lambda>(c :: EnhancedComplaintContext) (q :: string) (a :: string). qa_pairs (conversationHistory c)"
  let ?db0 = "mid_dialogue_store\<lparr>failing := (\<lambda>n. n = 0)\<rparr>"
  let ?db1 = "mid_dialogue_store\<lparr>failing := (\<lambda>n. n = 1)\<rparr>"
  have l: "length (stored_history mid_dialogue_doc) = 2"
    by (simp add: mid_dialogue_doc_def stored_history_def)
  have t: "take (Suc 0) (stored_history mid_dialogue_doc) = [stored_history mid_dialogue_doc ! 0]"
    by (simp add: mid_dialogue_doc_def stored_history_def)
  have q1: "qa_pairs [stored_history mid_dialogue_doc ! 0] = [(''q1'', ''Yesterday'')]"
    by (simp add: mid_dialogue_doc_def stored_history_def qa_pairs_def)
  note T = processAnswer_answers_turn
             [where env = sample_env and handlerExtract = ?x and newDate = "now sample_env"
                and d = mid_dialogue_doc]
  have 1: "fst (processAnswer sample_env ?db0 ''c1'' ''q2'' ''A refund'')
     = Inl (Error ''Firestore request failed'')"
  proof -
    note U = T [where db = ?db0 and complaintId = "''c1''" and questionId = "''q2''"
                  and userAnswer = "''A refund''"]
    have "fst (processAnswer_with ?x (now sample_env) ?db0 ''c1'' ''q2'' ''A refund'')
            = Inl (Error ''Firestore request failed'')"
      by (rule U [THEN conjunct2, THEN conjunct1, THEN mp]) (simp add: mid_dialogue_store_def)
    then show ?thesis
      by (simp only: U [THEN conjunct1])
  qed
  have 2: "fst (processAnswer sample_env mid_dialogue_store ''c9'' ''q2'' ''A refund'')
       = Inl (Error ''Complaint document c9 not found'')"
  proof -
    note U = T [where db = mid_dialogue_store and complaintId = "''c9''" and questionId = "''q2''"
                  and userAnswer = "''A refund''"]
    have "fst (processAnswer_with ?x (now sample_env) mid_dialogue_store ''c9'' ''q2'' ''A refund'')
            = Inl (Error (''Complaint document '' @ ''c9'' @ '' not found''))"
      by (rule U [THEN conjunct2, THEN conjunct2, THEN conjunct1, THEN mp])
         (simp add: mid_dialogue_store_def)
    then show ?thesis
      by (simp add: U [THEN conjunct1])
  qed
  have 3: "fst (processAnswer sample_env mid_dialogue_store ''c1'' ''q9'' ''A refund'')
       = Inl (Error ''No question found matching questionId: q9'')"
  proof -
    note U = T [where db = mid_dialogue_store and complaintId = "''c1''" and questionId = "''q9''"
                  and userAnswer = "''A refund''"]
    have "fst (processAnswer_with ?x (now sample_env) mid_dialogue_store ''c1'' ''q9'' ''A refund'')
            = Inl (Error (''No question found matching questionId: '' @ ''q9''))"
      by (rule U [THEN conjunct2, THEN conjunct2, THEN conjunct2, THEN conjunct1, THEN mp])
         (simp add: mid_dialogue_store_def mid_dialogue_doc_def stored_history_def)
    then show ?thesis
      by (simp add: U [THEN conjunct1])
  qed
  have 4: "fst (processAnswer sample_env ?db1 ''c1'' ''q2'' ''A refund'')
       = Inl (Error ''Firestore request failed'')"
  proof -
    note U = T [where db = ?db1 and complaintId = "''c1''" and questionId = "''q2''"
                  and userAnswer = "''A refund''"]
    have "fst (processAnswer_with ?x (now sample_env) ?db1 ''c1'' ''q2'' ''A refund'')
            = Inl (Error ''Firestore request failed'')"
      by (rule U [THEN conjunct2, THEN conjunct2, THEN conjunct2, THEN conjunct2, THEN conjunct1,
                  THEN mp])
         (simp add: mid_dialogue_store_def mid_dialogue_doc_def stored_history_def)
    then show ?thesis
      by (simp only: U [THEN conjunct1])
  qed
  have s2: "\<not> failing mid_dialogue_store (opCount mid_dialogue_store)
           \<and> complaints mid_dialogue_store ''c1'' = Some mid_dialogue_doc
           \<and> findIndex (\<lambda>turn. turn_id turn = ''q2'') (stored_history mid_dialogue_doc) = Some (Suc 0)
           \<and> \<not> failing mid_dialogue_store (Suc (opCount mid_dialogue_store))"
    by (simp add: mid_dialogue_store_def mid_dialogue_doc_def stored_history_def)
  have s1: "\<not> failing mid_dialogue_store (opCount mid_dialogue_store)
           \<and> complaints mid_dialogue_store ''c1'' = Some mid_dialogue_doc
           \<and> findIndex (\<lambda>turn. turn_id turn = ''q1'') (stored_history mid_dialogue_doc) = Some 0
           \<and> \<not> failing mid_dialogue_store (Suc (opCount mid_dialogue_store))"
    by (simp add: mid_dialogue_store_def mid_dialogue_doc_def stored_history_def)
  have m: "match_braces ''Here it is: {\"date\": \"yesterday\"}'' = Some ''{\"date\": \"yesterday\"}''"
    by (simp add: match_braces_def)
  have x: "extractInformationFromAnswer sample_env (tempContext mid_dialogue_doc (Suc 0))
             (question (stored_history mid_dialogue_doc ! Suc 0)) ''A refund'' = [(''date'', ''yesterday'')]"
    by (simp add: extractInformationFromAnswer_def extractInformation_def sample_env_def
          truthy_string_def m parse_braced_def Let_def)
  have 5: "\<exists>c. fst (processAnswer sample_env mid_dialogue_store ''c1'' ''q2'' ''A refund'') = Inr c
         \<and> length (conversationHistory c) = 2
         \<and> conversationHistory c ! 0 = stored_history mid_dialogue_doc ! 0
         \<and> turn_id (conversationHistory c ! 1) = ''q2''
         \<and> answer (conversationHistory c ! 1) = ''A refund''
         \<and> extractedInfo (conversationHistory c ! 1) = [(''date'', ''yesterday'')]
         \<and> confidenceDelta (conversationHistory c ! 1) = js_literal (2 / 10)"
  proof -
    note U = T [where db = mid_dialogue_store and complaintId = "''c1''" and questionId = "''q2''"
                  and userAnswer = "''A refund''" and i = "Suc 0"]
    note E = U [THEN conjunct2, THEN conjunct2, THEN conjunct2, THEN conjunct2, THEN conjunct2,
                THEN conjunct1, THEN mp, OF s2]
    from E obtain c where
      c: "fst (processAnswer_with ?x (now sample_env) mid_dialogue_store ''c1'' ''q2'' ''A refund'') = Inr c
             \<and> length (conversationHistory c) = length (stored_history mid_dialogue_doc)
             \<and> (\<forall>j < length (stored_history mid_dialogue_doc). j \<noteq> Suc 0 \<longrightarrow>
                   conversationHistory c ! j = stored_history mid_dialogue_doc ! j)
             \<and> Suc 0 < length (stored_history mid_dialogue_doc)
             \<and> turn_id (stored_history mid_dialogue_doc ! Suc 0) = ''q2''
             \<and> (\<forall>j < Suc 0. turn_id (stored_history mid_dialogue_doc ! j) \<noteq> ''q2'')
             \<and> turn_id (conversationHistory c ! Suc 0) = ''q2''
             \<and> question (conversationHistory c ! Suc 0) = question (stored_history mid_dialogue_doc ! Suc 0)
             \<and> answer (conversationHistory c ! Suc 0) = ''A refund''
             \<and> extractedInfo (conversationHistory c ! Suc 0)
                 = ?x (tempContext mid_dialogue_doc (Suc 0))
                     (question (stored_history mid_dialogue_doc ! Suc 0)) ''A refund''
             \<and> conversationHistory (tempContext mid_dialogue_doc (Suc 0))
                 = take (Suc 0) (stored_history mid_dialogue_doc)
             \<and> confidenceDelta (conversationHistory c ! Suc 0)
                 = (if extractedInfo (conversationHistory c ! Suc 0) \<noteq> [] then js_literal (2 / 10)
                    else js_literal (1 / 10))"
      by (rule exE)
    from c l have z: "conversationHistory c ! 0 = stored_history mid_dialogue_doc ! 0"
      by simp
    from c have r: "fst (processAnswer sample_env mid_dialogue_store ''c1'' ''q2'' ''A refund'') = Inr c"
      by (simp only: U [THEN conjunct1])
    from c have e: "extractedInfo (conversationHistory c ! Suc 0) = [(''date'', ''yesterday'')]"
      by (simp only: x)
    have "fst (processAnswer sample_env mid_dialogue_store ''c1'' ''q2'' ''A refund'') = Inr c
         \<and> length (conversationHistory c) = 2
         \<and> conversationHistory c ! 0 = stored_history mid_dialogue_doc ! 0
         \<and> turn_id (conversationHistory c ! 1) = ''q2''
         \<and> answer (conversationHistory c ! 1) = ''A refund''
         \<and> extractedInfo (conversationHistory c ! 1) = [(''date'', ''yesterday'')]
         \<and> confidenceDelta (conversationHistory c ! 1) = js_literal (2 / 10)"
      using c by (simp add: r z e l)
    then show ?thesis ..
  qed
  have 6: "\<exists>c. fst (processAnswer_with ?seen 3000 mid_dialogue_store ''c1'' ''q2'' ''A refund'') = Inr c
         \<and> extractedInfo (conversationHistory c ! 1) = [(''q1'', ''Yesterday'')]
         \<and> confidenceDelta (conversationHistory c ! 1) = js_literal (2 / 10)"
  proof -
    note U = processAnswer_answers_turn
           [where complaintId = "''c1''" and userAnswer = "''A refund''" and handlerExtract = ?seen
              and newDate = 3000 and d = mid_dialogue_doc and db = mid_dialogue_store
              and questionId = "''q2''" and i = "Suc 0"]
    note E = U [THEN conjunct2, THEN conjunct2, THEN conjunct2, THEN conjunct2, THEN conjunct2,
                THEN conjunct1, THEN mp, OF s2]
    from E obtain c where
      c: "fst (processAnswer_with ?seen 3000 mid_dialogue_store ''c1'' ''q2'' ''A refund'') = Inr c
             \<and> length (conversationHistory c) = length (stored_history mid_dialogue_doc)
             \<and> (\<forall>j < length (stored_history mid_dialogue_doc). j \<noteq> Suc 0 \<longrightarrow>
                   conversationHistory c ! j = stored_history mid_dialogue_doc ! j)
             \<and> Suc 0 < length (stored_history mid_dialogue_doc)
             \<and> turn_id (stored_history mid_dialogue_doc ! Suc 0) = ''q2''
             \<and> (\<forall>j < Suc 0. turn_id (stored_history mid_dialogue_doc ! j) \<noteq> ''q2'')
             \<and> turn_id (conversationHistory c ! Suc 0) = ''q2''
             \<and> question (conversationHistory c ! Suc 0) = question (stored_history mid_dialogue_doc ! Suc 0)
             \<and> answer (conversationHistory c ! Suc 0) = ''A refund''
             \<and> extractedInfo (conversationHistory c ! Suc 0)
                 = qa_pairs (conversationHistory (tempContext mid_dialogue_doc (Suc 0)))
             \<and> conversationHistory (tempContext mid_dialogue_doc (Suc 0))
                 = take (Suc 0) (stored_history mid_dialogue_doc)
             \<and> confidenceDelta (conversationHistory c ! Suc 0)
                 = (if extractedInfo (conversationHistory c ! Suc 0) \<noteq> [] then js_literal (2 / 10)
                    else js_literal (1 / 10))"
      by (rule exE)
    from c have e: "extractedInfo (conversationHistory c ! Suc 0) = [(''q1'', ''Yesterday'')]"
      by (simp add: t q1)
    have "fst (processAnswer_with ?seen 3000 mid_dialogue_store ''c1'' ''q2'' ''A refund'') = Inr c
         \<and> extractedInfo (conversationHistory c ! 1) = [(''q1'', ''Yesterday'')]
         \<and> confidenceDelta (conversationHistory c ! 1) = js_literal (2 / 10)"
      using c by (simp add: e)
    then show ?thesis ..
  qed
  have 7: "\<exists>c. fst (processAnswer_with ?seen 3000 mid_dialogue_store ''c1'' ''q1'' ''Last week'') = Inr c
         \<and> answer (conversationHistory c ! 0) = ''Last week''
         \<and> extractedInfo (conversationHistory c ! 0) = []
         \<and> confidenceDelta (conversationHistory c ! 0) = js_literal (1 / 10)"
  proof -
    note U = processAnswer_answers_turn
           [where complaintId = "''c1''" and userAnswer = "''Last week''" and handlerExtract = ?seen
              and newDate = 3000 and d = mid_dialogue_doc and db = mid_dialogue_store
              and questionId = "''q1''" and i = 0]
    note E = U [THEN conjunct2, THEN conjunct2, THEN conjunct2, THEN conjunct2, THEN conjunct2,
                THEN conjunct1, THEN mp, OF s1]
    from E obtain c where
      c: "fst (processAnswer_with ?seen 3000 mid_dialogue_store ''c1'' ''q1'' ''Last week'') = Inr c
             \<and> length (conversationHistory c) = length (stored_history mid_dialogue_doc)
             \<and> (\<forall>j < length (stored_history mid_dialogue_doc). j \<noteq> 0 \<longrightarrow>
                   conversationHistory c ! j = stored_history mid_dialogue_doc ! j)
             \<and> 0 < length (stored_history mid_dialogue_doc)
             \<and> turn_id (stored_history mid_dialogue_doc ! 0) = ''q1''
             \<and> (\<forall>j < 0. turn_id (stored_history mid_dialogue_doc ! j) \<noteq> ''q1'')
             \<and> turn_id (conversationHistory c ! 0) = ''q1''
             \<and> question (conversationHistory c ! 0) = question (stored_history mid_dialogue_doc ! 0)
             \<and> answer (conversationHistory c ! 0) = ''Last week''
             \<and> extractedInfo (conversationHistory c ! 0)
                 = qa_pairs (conversationHistory (tempContext mid_dialogue_doc 0))
             \<and> conversationHistory (tempContext mid_dialogue_doc 0)
                 = take 0 (stored_history mid_dialogue_doc)
             \<and> confidenceDelta (conversationHistory c ! 0)
                 = (if extractedInfo (conversationHistory c ! 0) \<noteq> [] then js_literal (2 / 10)
                    else js_literal (1 / 10))"
      by (rule exE)
    from c have e: "extractedInfo (conversationHistory c ! 0) = []"
      by (simp add: qa_pairs_def)
    have "fst (processAnswer_with ?seen 3000 mid_dialogue_store ''c1'' ''q1'' ''Last week'') = Inr c
         \<and> answer (conversationHistory c ! 0) = ''Last week''
         \<and> extractedInfo (conversationHistory c ! 0) = []
         \<and> confidenceDelta (conversationHistory c ! 0) = js_literal (1 / 10)"
      using c by (simp add: e)
    then show ?thesis ..
  qed
  show ?thesis
    by (intro conjI 1 2 3 4 5 6 7)
qed

text \<open>
  C6: whenever the continuation-decision call to the language model fails,
  shouldAskMoreQuestions is false, for every context: the dialogue stops asking.
\<close>

theorem shouldAskMoreQuestions_fails_closed:
  assumes "generateFollowupQuestions (chat env)
             (ShouldContinuePrompt (originalComplaint context) (buildConversationSummary context)
                (extractedFields context)) = Inl e"
  shows "shouldAskMoreQuestions config env context = False"
  using assms
  by (simp add: shouldAskMoreQuestions_def llmShouldContinueAsking_def Let_def)

theorem shouldAskMoreQuestions_fails_closed_witness:
  "shouldAskMoreQuestions followupQuestionsConfig offline_env sample_fallback_context = False"
  using shouldAskMoreQuestions_fails_closed
      [of offline_env sample_fallback_context "Error ''Failed to generate follow-up questions''"
          followupQuestionsConfig]
  by (simp add: generateFollowupQuestions_def offline_env_def)

end
